theory Spec2Isabelle
  imports Main "HOL-Library.Word" "HOL-Library.AList"
begin

unbundle bit_operations_syntax

section \<open>Python values\<close>

text \<open>
  A Python \<open>str\<close> is a sequence of Unicode code points, so it is modelled as a list of
  naturals; the templates of the builder contain U+2013, U+2014 and U+2550, which do not
  fit into an 8-bit \<open>char\<close>. \<open>ustr\<close> embeds an Isabelle string (one code point per
  character). A \<open>bytes\<close> value is a list of 8-bit words.
\<close>

type_synonym pystr = "nat list"

type_synonym byte = "8 word"

definition ustr :: "string \<Rightarrow> pystr" where
  "ustr s = map of_char s"

text \<open>The exceptions that the builder raises or lets escape.\<close>

datatype error =
    ValidationError
  | LookupError
  | UnicodeEncodeError
  | AttributeError
  | TypeError
  | PermissionError
  | OSError

text \<open>
  The nested dict/list/str/bool values that the builder hands to \<open>json.dumps\<close>. A dict
  keeps its insertion order, so it is an association list; \<open>d.get(k)\<close> is \<open>map_of d k\<close>
  and \<open>d[k] = v\<close> is \<open>AList.update k v d\<close>.
\<close>

datatype json =
    JStr pystr
  | JBool bool
  | JArr "json list"
  | JObj "(pystr \<times> json) list"

type_synonym pydict = "(pystr \<times> json) list"

section \<open>Configuration\<close>

record BuildConfig =
  version :: pystr
  promptcore_ver :: pystr
  domain :: pystr
  page_slug :: pystr
  encoding :: pystr
  zip_compression :: int
  min_astro_size :: int
  min_css_size :: int
  required_schema_types :: "pystr list"

text \<open>\<open>BuildConfig()\<close>: every field at its default (\<open>zipfile.ZIP_DEFLATED\<close> is 8).\<close>

definition BuildConfig_default :: BuildConfig where
  "BuildConfig_default = \<lparr>
     version = ustr ''1.0.0-enterprise'',
     promptcore_ver = ustr ''v3.7'',
     domain = ustr ''https://www.nextara-ai-solutions.com'',
     page_slug = ustr ''digital-credibility-score-audit'',
     encoding = ustr ''utf-8'',
     zip_compression = 8,
     min_astro_size = 5000,
     min_css_size = 500,
     required_schema_types = [ustr ''WebPage'', ustr ''Service'', ustr ''FAQPage'']\<rparr>"

section \<open>Content generators\<close>

subsection \<open>Page markup\<close>

text \<open>
  The markup is one literal of 377 lines. It is cut here at its section comments, one
  definition per section and one list entry per source line; \<open>generate_astro_content\<close>
  concatenates the sections in order.
\<close>

definition astro_frontmatter :: pystr where
  \<open>astro_frontmatter = concat [
    ustr ''---\<newline>'',
    ustr ''import BaseLayout from \'../layouts/BaseLayout.astro\';\<newline>'',
    ustr ''\<newline>'',
    ustr ''const pageTitle = \'Digital Credibility Score Audit | NexTara AI Solutions\';\<newline>'',
    ustr ''const pageDescription =\<newline>'',
    ustr ''  \'Request a Digital Credibility Score Audit to understand whether your current website can realistically reach a DCS 900+ standard and where your biggest gaps are.\';\<newline>'',
    ustr ''---\<newline>'',
    ustr ''\<newline>'',
    ustr ''<BaseLayout title={pageTitle} description={pageDescription}>\<newline>'',
    ustr ''  <main>\<newline>'']\<close>

definition astro_hero_section :: pystr where
  \<open>astro_hero_section = concat [
    ustr ''    {/* HERO SECTION */}\<newline>'',
    ustr ''    <section class="hero-section hero-section--audit">\<newline>'',
    ustr ''      <div class="container">\<newline>'',
    ustr ''        <div class="hero-grid">\<newline>'',
    ustr ''          <div class="hero-content">\<newline>'',
    ustr ''            <h1 class="hero-title fade-up">Digital Credibility Score Audit</h1>\<newline>'',
    ustr ''            <p class="hero-lead fade-up-delay-1">\<newline>'',
    ustr ''              Find out if your current website can realistically earn a Digital Credibility Score of\<newline>'',
    ustr ''              900+'' @ [0x2014] @ ustr ''or if you&apos;re leaving visibility, trust, and revenue on the table.\<newline>'',
    ustr ''            </p>\<newline>'',
    ustr ''            <ul class="hero-bullets fade-up-delay-2">\<newline>'',
    ustr ''              <li>See where your site passes or fails modern AI + search tests.</li>\<newline>'',
    ustr ''              <li>Understand what is blocking you from a DCS 900+ build.</li>\<newline>'',
    ustr ''              <li>Get a prioritized, non-fluffy remediation roadmap.</li>\<newline>'',
    ustr ''            </ul>\<newline>'',
    ustr ''            <div class="hero-ctas fade-up-delay-3">\<newline>'',
    ustr ''              <a href="#audit-form" class="btn btn-primary">Start My DCS Audit</a>\<newline>'',
    ustr ''              <a href="/contact" class="btn btn-secondary">Talk with NexTara First</a>\<newline>'',
    ustr ''            </div>\<newline>'',
    ustr ''          </div>\<newline>'',
    ustr ''        </div>\<newline>'',
    ustr ''      </div>\<newline>'',
    ustr ''    </section>\<newline>'',
    ustr ''\<newline>'']\<close>

definition astro_what_you_get :: pystr where
  \<open>astro_what_you_get = concat [
    ustr ''    {/* WHAT YOU GET */}\<newline>'',
    ustr ''    <section class="section">\<newline>'',
    ustr ''      <div class="container">\<newline>'',
    ustr ''        <h2 class="section-title">What You Get from a Digital Credibility Score Audit</h2>\<newline>'',
    ustr ''        <p class="section-intro">\<newline>'',
    ustr ''          This is a structured, engineering-grade audit'' @ [0x2014] @ ustr ''built to support executives, marketers, and\<newline>'',
    ustr ''          technical owners who need clear answers, not another vague checklist.\<newline>'',
    ustr ''        </p>\<newline>'',
    ustr ''        <div class="grid grid-2">\<newline>'',
    ustr ''          <ul class="feature-list">\<newline>'',
    ustr ''            <li><strong>DCS Baseline Score.</strong> 0'' @ [0x2013] @ ustr ''1000 snapshot of your current credibility posture.</li>\<newline>'',
    ustr ''            <li><strong>Category Breakdown.</strong> Scores across visibility, technical integrity, schema, trust, conversion, and analytics.</li>\<newline>'',
    ustr ''            <li><strong>Issue Inventory.</strong> High, medium, and low'' @ [0x2013] @ ustr ''impact issues mapped to business risk.</li>\<newline>'',
    ustr ''          </ul>\<newline>'',
    ustr ''          <ul class="feature-list">\<newline>'',
    ustr ''            <li><strong>Remediation Roadmap.</strong> Prioritized actions for your current team, agency, or NexTara to execute.</li>\<newline>'',
    ustr ''            <li><strong>Readout Option.</strong> Optional review session to walk through the findings and answer questions.</li>\<newline>'',
    ustr ''          </ul>\<newline>'',
    ustr ''        </div>\<newline>'',
    ustr ''      </div>\<newline>'',
    ustr ''    </section>\<newline>'',
    ustr ''\<newline>'']\<close>

definition astro_executive_snapshot :: pystr where
  \<open>astro_executive_snapshot = concat [
    ustr ''    {/* EXECUTIVE SNAPSHOT */}\<newline>'',
    ustr ''    <section class="section section-alt">\<newline>'',
    ustr ''      <div class="container">\<newline>'',
    ustr ''        <h2 class="section-title">Executive Audit Snapshot</h2>\<newline>'',
    ustr ''        <p class="section-intro">\<newline>'',
    ustr ''          The Digital Credibility Score Audit is delivered as a structured decision asset, not a loose\<newline>'',
    ustr ''          collection of screenshots and suggestions.\<newline>'',
    ustr ''        </p>\<newline>'',
    ustr ''        <div class="audit-summary-grid">\<newline>'',
    ustr ''          <div class="audit-summary-card">\<newline>'',
    ustr ''            <h3 class="card-label">Primary Output</h3>\<newline>'',
    ustr ''            <p class="card-value">Digital Credibility Score (0'' @ [0x2013] @ ustr ''1000) + Pillar Scores</p>\<newline>'',
    ustr ''            <p class="card-note">Visibility, Technical Integrity, Trust, Conversion, Analytics &amp; Governance.</p>\<newline>'',
    ustr ''          </div>\<newline>'',
    ustr ''          <div class="audit-summary-card">\<newline>'',
    ustr ''            <h3 class="card-label">Decision Question</h3>\<newline>'',
    ustr ''            <p class="card-value">"Can this website support a DCS 900+ standard, or is a rebuild more efficient?"</p>\<newline>'',
    ustr ''            <p class="card-note">Built to support executive &quot;fix vs. rebuild&quot; decisions.</p>\<newline>'',
    ustr ''          </div>\<newline>'',
    ustr ''          <div class="audit-summary-card">\<newline>'',
    ustr ''            <h3 class="card-label">Deliverable Format</h3>\<newline>'',
    ustr ''            <p class="card-value">Audit PDF + Issue Inventory + Roadmap</p>\<newline>'',
    ustr ''            <p class="card-note">Vendor-neutral, suitable for internal teams or external agencies.</p>\<newline>'',
    ustr ''          </div>\<newline>'',
    ustr ''          <div class="audit-summary-card">\<newline>'',
    ustr ''            <h3 class="card-label">Intended Owner</h3>\<newline>'',
    ustr ''            <p class="card-value">CMO / Founder / Marketing or Operations Lead</p>\<newline>'',
    ustr ''            <p class="card-note">Structured to brief stakeholders in one meeting.</p>\<newline>'',
    ustr ''          </div>\<newline>'',
    ustr ''        </div>\<newline>'',
    ustr ''      </div>\<newline>'',
    ustr ''    </section>\<newline>'',
    ustr ''\<newline>'']\<close>

definition astro_why_it_matters :: pystr where
  \<open>astro_why_it_matters = concat [
    ustr ''    {/* WHY IT MATTERS */}\<newline>'',
    ustr ''    <section class="section section-alt">\<newline>'',
    ustr ''      <div class="container">\<newline>'',
    ustr ''        <h2 class="section-title">Why Your Digital Credibility Score Matters Now</h2>\<newline>'',
    ustr ''        <p class="section-intro">\<newline>'',
    ustr ''          Search engines and AI systems are reading your schema, your technical structure, your trust\<newline>'',
    ustr ''          signals, and your analytics stack to decide whether your website deserves visibility.\<newline>'',
    ustr ''        </p>\<newline>'',
    ustr ''        <div class="grid grid-3">\<newline>'',
    ustr ''          <div class="card">\<newline>'',
    ustr ''            <h3 class="card-title">Visibility</h3>\<newline>'',
    ustr ''            <p>If your score is low, high-intent buyers never see your pages'' @ [0x2014] @ ustr ''no matter how strong your copy is.</p>\<newline>'',
    ustr ''          </div>\<newline>'',
    ustr ''          <div class="card">\<newline>'',
    ustr ''            <h3 class="card-title">Efficiency</h3>\<newline>'',
    ustr ''            <p>Ad spend has to fight against a weak technical foundation, driving higher CPCs and lower quality leads.</p>\<newline>'',
    ustr ''          </div>\<newline>'',
    ustr ''          <div class="card">\<newline>'',
    ustr ''            <h3 class="card-title">Confidence</h3>\<newline>'',
    ustr ''            <p>A quantified score gives leadership a shared, objective view of the site&apos;s true readiness.</p>\<newline>'',
    ustr ''          </div>\<newline>'',
    ustr ''        </div>\<newline>'',
    ustr ''      </div>\<newline>'',
    ustr ''    </section>\<newline>'',
    ustr ''\<newline>'']\<close>

definition astro_who_its_for :: pystr where
  \<open>astro_who_its_for = concat [
    ustr ''    {/* WHO IT\'S FOR */}\<newline>'',
    ustr ''    <section class="section">\<newline>'',
    ustr ''      <div class="container grid grid-2">\<newline>'',
    ustr ''        <div>\<newline>'',
    ustr ''          <h2 class="section-title">Who This Audit Is For</h2>\<newline>'',
    ustr ''          <ul class="feature-list">\<newline>'',
    ustr ''            <li>Organizations that treat their website as a growth asset, not a brochure.</li>\<newline>'',
    ustr ''            <li>Teams considering a redesign and wanting proof before they commit.</li>\<newline>'',
    ustr ''            <li>CMOs, founders, and marketing leaders who need clarity on "fix vs. rebuild" decisions.</li>\<newline>'',
    ustr ''            <li>Businesses that want audit-grade documentation for internal stakeholders.</li>\<newline>'',
    ustr ''          </ul>\<newline>'',
    ustr ''        </div>\<newline>'',
    ustr ''        <div class="card card-outline">\<newline>'',
    ustr ''          <h3 class="card-title">When This Is Not a Fit</h3>\<newline>'',
    ustr ''          <ul class="feature-list">\<newline>'',
    ustr ''            <li>You want a quick checklist without implementation follow-through.</li>\<newline>'',
    ustr ''            <li>No one owns the website or is accountable for acting on the findings.</li>\<newline>'',
    ustr ''            <li>You are comfortable operating without measurable standards.</li>\<newline>'',
    ustr ''          </ul>\<newline>'',
    ustr ''        </div>\<newline>'',
    ustr ''      </div>\<newline>'',
    ustr ''    </section>\<newline>'',
    ustr ''\<newline>'']\<close>

definition astro_how_it_works :: pystr where
  \<open>astro_how_it_works = concat [
    ustr ''    {/* HOW IT WORKS */}\<newline>'',
    ustr ''    <section class="section section-alt">\<newline>'',
    ustr ''      <div class="container">\<newline>'',
    ustr ''        <h2 class="section-title">How the Digital Credibility Score Audit Works</h2>\<newline>'',
    ustr ''        <div class="steps-grid">\<newline>'',
    ustr ''          <div class="step">\<newline>'',
    ustr ''            <div class="step-number">1</div>\<newline>'',
    ustr ''            <h3 class="step-title">Intake &amp; Context</h3>\<newline>'',
    ustr ''            <p>You complete a short intake with your domain, current stack, and business priorities so the audit is aligned to reality.</p>\<newline>'',
    ustr ''          </div>\<newline>'',
    ustr ''          <div class="step">\<newline>'',
    ustr ''            <div class="step-number">2</div>\<newline>'',
    ustr ''            <h3 class="step-title">Signal Collection &amp; Scoring</h3>\<newline>'',
    ustr ''            <p>We run your site through the DCS framework, covering visibility, schema, performance, trust, conversion, and analytics.</p>\<newline>'',
    ustr ''          </div>\<newline>'',
    ustr ''          <div class="step">\<newline>'',
    ustr ''            <div class="step-number">3</div>\<newline>'',
    ustr ''            <h3 class="step-title">Issue Mapping &amp; Prioritization</h3>\<newline>'',
    ustr ''            <p>We identify the gaps preventing a DCS 900+ build and prioritize them by impact and effort.</p>\<newline>'',
    ustr ''          </div>\<newline>'',
    ustr ''          <div class="step">\<newline>'',
    ustr ''            <div class="step-number">4</div>\<newline>'',
    ustr ''            <h3 class="step-title">Delivery &amp; Readout</h3>\<newline>'',
    ustr ''            <p>You receive the full audit PDF and score breakdown, with an optional readout session to walk through findings and next steps.</p>\<newline>'',
    ustr ''          </div>\<newline>'',
    ustr ''        </div>\<newline>'',
    ustr ''      </div>\<newline>'',
    ustr ''    </section>\<newline>'',
    ustr ''\<newline>'']\<close>

definition astro_five_pillars :: pystr where
  \<open>astro_five_pillars = concat [
    ustr ''    {/* FIVE PILLARS */}\<newline>'',
    ustr ''    <section class="section">\<newline>'',
    ustr ''      <div class="container">\<newline>'',
    ustr ''        <h2 class="section-title">The Five Pillars of Your Digital Credibility Score</h2>\<newline>'',
    ustr ''        <p class="section-intro">\<newline>'',
    ustr ''          The DCS framework evaluates your website across five tightly-governed pillars. Each pillar\<newline>'',
    ustr ''          contributes to your overall 0'' @ [0x2013] @ ustr ''1000 score and your ability to operate as a DCS 900+ website.\<newline>'',
    ustr ''        </p>\<newline>'',
    ustr ''        <div class="grid grid-3">\<newline>'',
    ustr ''          <div class="card">\<newline>'',
    ustr ''            <h3 class="card-title">1. Visibility Engine</h3>\<newline>'',
    ustr ''            <p>How clearly search engines and AI systems can understand, crawl, and surface your pages. Schema structure, internal linking, and content architecture are evaluated here.</p>\<newline>'',
    ustr ''          </div>\<newline>'',
    ustr ''          <div class="card">\<newline>'',
    ustr ''            <h3 class="card-title">2. Technical Integrity</h3>\<newline>'',
    ustr ''            <p>Core Web Vitals, mobile responsiveness, rendering behavior, and code hygiene. This pillar determines whether your site meets modern performance expectations.</p>\<newline>'',
    ustr ''          </div>\<newline>'',
    ustr ''          <div class="card">\<newline>'',
    ustr ''            <h3 class="card-title">3. Trust Layer</h3>\<newline>'',
    ustr ''            <p>Brand consistency, proof assets, reviews, case studies, and compliance language. We measure whether your digital presence actually earns trust from both humans and algorithms.</p>\<newline>'',
    ustr ''          </div>\<newline>'',
    ustr ''          <div class="card">\<newline>'',
    ustr ''            <h3 class="card-title">4. Conversion Spine</h3>\<newline>'',
    ustr ''            <p>CTA hierarchy, page flow, form friction, and lead capture readiness. This is where we score how effectively your website converts qualified attention into qualified pipeline.</p>\<newline>'',
    ustr ''          </div>\<newline>'',
    ustr ''          <div class="card">\<newline>'',
    ustr ''            <h3 class="card-title">5. Data &amp; Governance Layer</h3>\<newline>'',
    ustr ''            <p>GA4, GTM, consent posture, and data hygiene. We evaluate whether your analytics and governance stack are capable of supporting accurate measurement and optimization.</p>\<newline>'',
    ustr ''          </div>\<newline>'',
    ustr ''        </div>\<newline>'',
    ustr ''      </div>\<newline>'',
    ustr ''    </section>\<newline>'',
    ustr ''\<newline>'']\<close>

definition astro_sample_findings :: pystr where
  \<open>astro_sample_findings = concat [
    ustr ''    {/* SAMPLE FINDINGS */}\<newline>'',
    ustr ''    <section class="section section-alt">\<newline>'',
    ustr ''      <div class="container">\<newline>'',
    ustr ''        <h2 class="section-title">Sample Findings from a DCS Audit</h2>\<newline>'',
    ustr ''        <p class="section-intro">\<newline>'',
    ustr ''          The goal is not to overwhelm you with jargon'' @ [0x2014] @ ustr ''it&apos;s to give you a clear, prioritized\<newline>'',
    ustr ''          picture of what must change for your site to behave like a DCS 900+ asset.\<newline>'',
    ustr ''        </p>\<newline>'',
    ustr ''        <div class="grid grid-3">\<newline>'',
    ustr ''          <div class="card">\<newline>'',
    ustr ''            <h3 class="card-title">Surface-Level Strong, Structurally Weak</h3>\<newline>'',
    ustr ''            <p>"Your site is visually strong but missing the schema and internal linking required for AI and search systems to understand your services."</p>\<newline>'',
    ustr ''          </div>\<newline>'',
    ustr ''          <div class="card">\<newline>'',
    ustr ''            <h3 class="card-title">Conversion Friction on Mobile</h3>\<newline>'',
    ustr ''            <p>"Core Web Vitals are within acceptable ranges, but your lead capture flow introduces unnecessary friction on mobile."</p>\<newline>'',
    ustr ''          </div>\<newline>'',
    ustr ''          <div class="card">\<newline>'',
    ustr ''            <h3 class="card-title">Analytics Blockers</h3>\<newline>'',
    ustr ''            <p>"GTM is installed, but critical events are not being forwarded to GA4, preventing you from unlocking full measurement and optimization."</p>\<newline>'',
    ustr ''          </div>\<newline>'',
    ustr ''        </div>\<newline>'',
    ustr ''      </div>\<newline>'',
    ustr ''    </section>\<newline>'',
    ustr ''\<newline>'']\<close>

definition astro_risk_grid :: pystr where
  \<open>astro_risk_grid = concat [
    ustr ''    {/* RISK GRID */}\<newline>'',
    ustr ''    <section class="section section-alt">\<newline>'',
    ustr ''      <div class="container">\<newline>'',
    ustr ''        <h2 class="section-title">How We Classify Findings</h2>\<newline>'',
    ustr ''        <p class="section-intro">\<newline>'',
    ustr ''          Every issue in your audit is tagged with business impact, DCS impact, and recommended\<newline>'',
    ustr ''          action. This keeps the roadmap focused and executable instead of overwhelming.\<newline>'',
    ustr ''        </p>\<newline>'',
    ustr ''        <div class="risk-grid">\<newline>'',
    ustr ''          <div class="risk-card risk-card--critical">\<newline>'',
    ustr ''            <h3 class="card-title">Critical '' @ [0x2013] @ ustr '' Blocks DCS 900+</h3>\<newline>'',
    ustr ''            <p class="card-note">Immediate attention required.</p>\<newline>'',
    ustr ''            <ul class="feature-list">\<newline>'',
    ustr ''              <li>Broken or missing analytics / key events.</li>\<newline>'',
    ustr ''              <li>Structural issues that prevent key pages from being surfaced.</li>\<newline>'',
    ustr ''              <li>Security, compliance, or governance gaps that impact data integrity and decision quality.</li>\<newline>'',
    ustr ''            </ul>\<newline>'',
    ustr ''          </div>\<newline>'',
    ustr ''          <div class="risk-card risk-card--high">\<newline>'',
    ustr ''            <h3 class="card-title">High '' @ [0x2013] @ ustr '' Material Performance Drag</h3>\<newline>'',
    ustr ''            <p class="card-note">Schedule for near-term remediation.</p>\<newline>'',
    ustr ''            <ul class="feature-list">\<newline>'',
    ustr ''              <li>Weak internal linking or schema coverage on revenue-driving pages.</li>\<newline>'',
    ustr ''              <li>Conversion friction on primary lead capture paths.</li>\<newline>'',
    ustr ''              <li>Missing trust assets in high-intent decision flows.</li>\<newline>'',
    ustr ''            </ul>\<newline>'',
    ustr ''          </div>\<newline>'',
    ustr ''          <div class="risk-card risk-card--medium">\<newline>'',
    ustr ''            <h3 class="card-title">Medium '' @ [0x2013] @ ustr '' Optimization Opportunity</h3>\<newline>'',
    ustr ''            <p class="card-note">Plan into your next iteration cycle.</p>\<newline>'',
    ustr ''            <ul class="feature-list">\<newline>'',
    ustr ''              <li>Non-blocking Core Web Vitals issues.</li>\<newline>'',
    ustr ''              <li>Messaging gaps between ad promises and landing page content.</li>\<newline>'',
    ustr ''              <li>Unclear secondary CTAs or off-ramp experiences.</li>\<newline>'',
    ustr ''            </ul>\<newline>'',
    ustr ''          </div>\<newline>'',
    ustr ''        </div>\<newline>'',
    ustr ''      </div>\<newline>'',
    ustr ''    </section>\<newline>'',
    ustr ''\<newline>'']\<close>

definition astro_timeline :: pystr where
  \<open>astro_timeline = concat [
    ustr ''    {/* TIMELINE */}\<newline>'',
    ustr ''    <section class="section section-alt">\<newline>'',
    ustr ''      <div class="container">\<newline>'',
    ustr ''        <h2 class="section-title">Timeline &amp; Next Steps</h2>\<newline>'',
    ustr ''        <p class="section-intro">\<newline>'',
    ustr ''          The DCS Audit is designed to move quickly enough for decision-making, while still meeting\<newline>'',
    ustr ''          the documentation and governance standards your leadership expects.\<newline>'',
    ustr ''        </p>\<newline>'',
    ustr ''        <ul class="feature-list">\<newline>'',
    ustr ''          <li><strong>Audit Duration.</strong> Completed within a defined timeframe after you complete the intake.</li>\<newline>'',
    ustr ''          <li><strong>Format.</strong> Delivered as a structured PDF with a score breakdown and issue prioritization.</li>\<newline>'',
    ustr ''          <li><strong>Ownership.</strong> You can execute internally, with your current agency, or with NexTara'' @ [0x2014] @ ustr ''our output is vendor-neutral.</li>\<newline>'',
    ustr ''        </ul>\<newline>'',
    ustr ''      </div>\<newline>'',
    ustr ''    </section>\<newline>'',
    ustr ''\<newline>'']\<close>

definition astro_about_nextara :: pystr where
  \<open>astro_about_nextara = concat [
    ustr ''    {/* ABOUT NEXTARA */}\<newline>'',
    ustr ''    <section class="section">\<newline>'',
    ustr ''      <div class="container">\<newline>'',
    ustr ''        <h2 class="section-title">Why NexTara Leads with Governance</h2>\<newline>'',
    ustr ''        <p class="section-intro">\<newline>'',
    ustr ''          NexTara AI Solutions operates from a governance-first mindset. We don&apos;t just look at\<newline>'',
    ustr ''          how pages look'' @ [0x2014] @ ustr ''we measure how they perform against AI visibility, technical integrity,\<newline>'',
    ustr ''          analytics, and compliance.\<newline>'',
    ustr ''        </p>\<newline>'',
    ustr ''        <p>\<newline>'',
    ustr ''          The Digital Credibility Score Audit is built to support executive decision-making,\<newline>'',
    ustr ''          compliance documentation, and future-proofing against changes in how search and AI systems\<newline>'',
    ustr ''          evaluate your website.\<newline>'',
    ustr ''        </p>\<newline>'',
    ustr ''      </div>\<newline>'',
    ustr ''    </section>\<newline>'',
    ustr ''\<newline>'']\<close>

definition astro_faq :: pystr where
  \<open>astro_faq = concat [
    ustr ''    {/* FAQ */}\<newline>'',
    ustr ''    <section class="section">\<newline>'',
    ustr ''      <div class="container">\<newline>'',
    ustr ''        <h2 class="section-title">Digital Credibility Score Audit '' @ [0x2013] @ ustr '' FAQs</h2>\<newline>'',
    ustr ''        <div class="faq-list">\<newline>'',
    ustr ''          <article class="faq-item">\<newline>'',
    ustr ''            <h3 class="faq-question">Is this just an SEO audit with a different label?</h3>\<newline>'',
    ustr ''            <p class="faq-answer">No. A DCS Audit includes SEO and schema, but it also evaluates conversion, trust, analytics, and governance. The output is designed to support executive decisions about whether to optimize, rebuild, or re-platform your site.</p>\<newline>'',
    ustr ''          </article>\<newline>'',
    ustr ''          <article class="faq-item">\<newline>'',
    ustr ''            <h3 class="faq-question">Can my current agency or developer use this audit?</h3>\<newline>'',
    ustr ''            <p class="faq-answer">Yes. The audit is vendor-neutral. Many clients choose to execute the roadmap with their existing teams; others ask NexTara to own the rebuild. Either way, you keep the score, the findings, and the documentation.</p>\<newline>'',
    ustr ''          </article>\<newline>'',
    ustr ''          <article class="faq-item">\<newline>'',
    ustr ''            <h3 class="faq-question">What if my score is already high?</h3>\<newline>'',
    ustr ''            <p class="faq-answer">If your score is already in the DCS 880'' @ [0x2013] @ ustr ''920 range, the audit focuses on unlocking specific opportunities: AI visibility, conversion lift, and governance hardening. The goal is to move you from &quot;strong&quot; to &quot;enterprise-ready&quot; with a clear, prioritized set of changes.</p>\<newline>'',
    ustr ''          </article>\<newline>'',
    ustr ''          <article class="faq-item">\<newline>'',
    ustr ''            <h3 class="faq-question">Will you try to sell me a full website rebuild?</h3>\<newline>'',
    ustr ''            <p class="faq-answer">Only if the data justifies it. The DCS Audit is designed to answer a single question: &quot;Can this website realistically operate as a DCS 900+ asset?&quot; If the answer is yes, the roadmap will focus on optimization instead of rebuild.</p>\<newline>'',
    ustr ''          </article>\<newline>'',
    ustr ''        </div>\<newline>'',
    ustr ''      </div>\<newline>'',
    ustr ''    </section>\<newline>'',
    ustr ''\<newline>'']\<close>

definition astro_cta_form :: pystr where
  \<open>astro_cta_form = concat [
    ustr ''    {/* CTA + FORM */}\<newline>'',
    ustr ''    <section class="section section-alt" id="audit-form">\<newline>'',
    ustr ''      <div class="container grid grid-2">\<newline>'',
    ustr ''        <div>\<newline>'',
    ustr ''          <h2 class="section-title">Request Your Digital Credibility Score Audit</h2>\<newline>'',
    ustr ''          <p class="section-intro">\<newline>'',
    ustr ''            Complete the form and we&apos;ll confirm your audit, align on scope, and begin the DCS evaluation.\<newline>'',
    ustr ''          </p>\<newline>'',
    ustr ''          <ul class="feature-list">\<newline>'',
    ustr ''            <li>Objective, vendor-neutral assessment.</li>\<newline>'',
    ustr ''            <li>Actionable roadmap your team can execute.</li>\<newline>'',
    ustr ''            <li>Designed for DCS 900+ websites only builds.</li>\<newline>'',
    ustr ''          </ul>\<newline>'',
    ustr ''        </div>\<newline>'',
    ustr ''        <div>\<newline>'',
    ustr ''          <form class="form audit-form" data-netlify="true" name="dcs-audit-request">\<newline>'',
    ustr ''            <div class="form-field">\<newline>'',
    ustr ''              <label for="name">Name</label>\<newline>'',
    ustr ''              <input id="name" name="name" type="text" required autocomplete="name" />\<newline>'',
    ustr ''            </div>\<newline>'',
    ustr ''            <div class="form-field">\<newline>'',
    ustr ''              <label for="email">Email</label>\<newline>'',
    ustr ''              <input id="email" name="email" type="email" required autocomplete="email" />\<newline>'',
    ustr ''            </div>\<newline>'',
    ustr ''            <div class="form-field">\<newline>'',
    ustr ''              <label for="company">Company / Organization</label>\<newline>'',
    ustr ''              <input id="company" name="company" type="text" autocomplete="organization" />\<newline>'',
    ustr ''            </div>\<newline>'',
    ustr ''            <div class="form-field">\<newline>'',
    ustr ''              <label for="website">Website URL</label>\<newline>'',
    ustr ''              <input id="website" name="website" type="url" required placeholder="https://" />\<newline>'',
    ustr ''            </div>\<newline>'',
    ustr ''            <div class="form-field">\<newline>'',
    ustr ''              <label for="role">Role</label>\<newline>'',
    ustr ''              <select id="role" name="role">\<newline>'',
    ustr ''                <option value="">Select your role</option>\<newline>'',
    ustr ''                <option value="founder">Founder / Owner</option>\<newline>'',
    ustr ''                <option value="cmo">CMO / Marketing Lead</option>\<newline>'',
    ustr ''                <option value="ops">Operations / Practice Manager</option>\<newline>'',
    ustr ''                <option value="other">Other</option>\<newline>'',
    ustr ''              </select>\<newline>'',
    ustr ''            </div>\<newline>'',
    ustr ''            <div class="form-field">\<newline>'',
    ustr ''              <label for="concern">Biggest current website concern</label>\<newline>'',
    ustr ''              <textarea id="concern" name="concern" rows="4"></textarea>\<newline>'',
    ustr ''            </div>\<newline>'',
    ustr ''            <button type="submit" class="btn btn-primary btn-block">Request My DCS Audit</button>\<newline>'',
    ustr ''          </form>\<newline>'',
    ustr ''        </div>\<newline>'',
    ustr ''      </div>\<newline>'',
    ustr ''    </section>\<newline>'',
    ustr ''  </main>\<newline>'',
    ustr ''</BaseLayout>\<newline>'']\<close>

definition generate_astro_content :: "BuildConfig \<Rightarrow> pystr" where
  "generate_astro_content config = concat [
     astro_frontmatter, astro_hero_section, astro_what_you_get,
     astro_executive_snapshot, astro_why_it_matters, astro_who_its_for,
     astro_how_it_works, astro_five_pillars, astro_sample_findings, astro_risk_grid,
     astro_timeline, astro_about_nextara, astro_faq, astro_cta_form]"

subsection \<open>Structured data\<close>

definition generate_schema :: "BuildConfig \<Rightarrow> pydict" where
  \<open>generate_schema config =
    (let base_url = domain config @ ustr ''/'' @ page_slug config in
      [
        (ustr ''@context'', JStr (ustr ''https://schema.org'')),
        (ustr ''@graph'', JArr [
          JObj [
            (ustr ''@type'', JStr (ustr ''WebPage'')),
            (ustr ''@id'', JStr base_url),
            (ustr ''url'', JStr base_url),
            (ustr ''name'', JStr (ustr ''Digital Credibility Score Audit | NexTara AI Solutions'')),
            (ustr ''description'', JStr (ustr ''Request a Digital Credibility Score Audit to understand whether your current website can realistically reach a DCS 900+ standard.'')),
            (ustr ''isPartOf'', JObj [
              (ustr ''@id'', JStr (domain config @ ustr ''/#website''))]),
            (ustr ''primaryImageOfPage'', JObj [
              (ustr ''@type'', JStr (ustr ''ImageObject'')),
              (ustr ''@id'', JStr (domain config @ ustr ''/#dcs-audit-hero-image''))])],
          JObj [
            (ustr ''@type'', JStr (ustr ''Service'')),
            (ustr ''@id'', JStr (domain config @ ustr ''/#dcs-audit-service'')),
            (ustr ''name'', JStr (ustr ''Digital Credibility Score Audit'')),
            (ustr ''provider'', JObj [
              (ustr ''@type'', JStr (ustr ''Organization'')),
              (ustr ''name'', JStr (ustr ''NexTara AI Solutions''))]),
            (ustr ''description'', JStr (ustr ''A governance-grade diagnostic that evaluates your website across five pillars of the Digital Credibility Score framework.'')),
            (ustr ''areaServed'', JObj [
              (ustr ''@type'', JStr (ustr ''AdministrativeArea'')),
              (ustr ''name'', JStr (ustr ''United States''))])],
          JObj [
            (ustr ''@type'', JStr (ustr ''FAQPage'')),
            (ustr ''@id'', JStr (domain config @ ustr ''/#dcs-audit-faq'')),
            (ustr ''mainEntity'', JArr [
              JObj [
                (ustr ''@type'', JStr (ustr ''Question'')),
                (ustr ''name'', JStr (ustr ''Is this just an SEO audit with a different label?'')),
                (ustr ''acceptedAnswer'', JObj [
                  (ustr ''@type'', JStr (ustr ''Answer'')),
                  (ustr ''text'', JStr (ustr ''No. A DCS Audit includes SEO and schema, but it also evaluates conversion, trust, analytics, and governance.''))])],
              JObj [
                (ustr ''@type'', JStr (ustr ''Question'')),
                (ustr ''name'', JStr (ustr ''Can my current agency or developer use this audit?'')),
                (ustr ''acceptedAnswer'', JObj [
                  (ustr ''@type'', JStr (ustr ''Answer'')),
                  (ustr ''text'', JStr (ustr ''Yes. The audit is vendor-neutral. You keep the score, the findings, and the documentation.''))])],
              JObj [
                (ustr ''@type'', JStr (ustr ''Question'')),
                (ustr ''name'', JStr (ustr ''What if my score is already high?'')),
                (ustr ''acceptedAnswer'', JObj [
                  (ustr ''@type'', JStr (ustr ''Answer'')),
                  (ustr ''text'', JStr (ustr ''The audit focuses on unlocking specific opportunities: AI visibility, conversion lift, and governance hardening.''))])],
              JObj [
                (ustr ''@type'', JStr (ustr ''Question'')),
                (ustr ''name'', JStr (ustr ''Will you try to sell me a full website rebuild?'')),
                (ustr ''acceptedAnswer'', JObj [
                  (ustr ''@type'', JStr (ustr ''Answer'')),
                  (ustr ''text'', JStr (ustr ''Only if the data justifies it. The DCS Audit is designed to answer: Can this website realistically operate as a DCS 900+ asset?''))])]])]])])\<close>

subsection \<open>Stylesheet\<close>

definition css_header :: pystr where
  \<open>css_header = concat [
    ustr ''/* '' @ replicate 75 0x2550 @ ustr ''\<newline>'',
    ustr ''   DCS Audit Landing Page Styles '' @ [0x2014] @ ustr '' NexTara AI Solutions\<newline>'',
    ustr ''   Version: 1.0.0 | PromptCore v3.7 Aligned\<newline>'',
    ustr ''   '' @ replicate 75 0x2550 @ ustr '' */\<newline>'',
    ustr ''\<newline>'']\<close>

definition css_audit_hero_variant :: pystr where
  \<open>css_audit_hero_variant = concat [
    ustr ''/* Audit Hero Variant */\<newline>'',
    ustr ''.hero-section--audit {\<newline>'',
    ustr ''  /* Inherits base hero styles */\<newline>'',
    ustr ''}\<newline>'',
    ustr ''\<newline>'']\<close>

definition css_executive_summary_grid :: pystr where
  \<open>css_executive_summary_grid = concat [
    ustr ''/* Executive Summary Grid */\<newline>'',
    ustr ''.audit-summary-grid {\<newline>'',
    ustr ''  display: grid;\<newline>'',
    ustr ''  gap: var(--space-md, 1.5rem);\<newline>'',
    ustr ''}\<newline>'',
    ustr ''\<newline>'',
    ustr ''@media (min-width: 768px) {\<newline>'',
    ustr ''  .audit-summary-grid {\<newline>'',
    ustr ''    grid-template-columns: repeat(2, minmax(0, 1fr));\<newline>'',
    ustr ''  }\<newline>'',
    ustr ''}\<newline>'',
    ustr ''\<newline>'',
    ustr ''.audit-summary-card {\<newline>'',
    ustr ''  border: 1px solid var(--border-subtle, #1f2933);\<newline>'',
    ustr ''  border-radius: var(--radius-lg, 1rem);\<newline>'',
    ustr ''  padding: var(--space-md, 1.5rem);\<newline>'',
    ustr ''  background: var(--surface-elevated, #020617);\<newline>'',
    ustr ''}\<newline>'',
    ustr ''\<newline>'',
    ustr ''.audit-summary-card .card-label {\<newline>'',
    ustr ''  font-size: 0.85rem;\<newline>'',
    ustr ''  text-transform: uppercase;\<newline>'',
    ustr ''  letter-spacing: 0.06em;\<newline>'',
    ustr ''  opacity: 0.8;\<newline>'',
    ustr ''  margin-bottom: var(--space-xs, 0.5rem);\<newline>'',
    ustr ''}\<newline>'',
    ustr ''\<newline>'',
    ustr ''.audit-summary-card .card-value {\<newline>'',
    ustr ''  font-weight: 600;\<newline>'',
    ustr ''  margin-bottom: var(--space-xs, 0.5rem);\<newline>'',
    ustr ''}\<newline>'',
    ustr ''\<newline>'',
    ustr ''.audit-summary-card .card-note {\<newline>'',
    ustr ''  font-size: 0.9rem;\<newline>'',
    ustr ''  opacity: 0.9;\<newline>'',
    ustr ''}\<newline>'',
    ustr ''\<newline>'']\<close>

definition css_process_steps :: pystr where
  \<open>css_process_steps = concat [
    ustr ''/* Process Steps */\<newline>'',
    ustr ''.steps-grid {\<newline>'',
    ustr ''  display: grid;\<newline>'',
    ustr ''  gap: var(--space-md, 1.5rem);\<newline>'',
    ustr ''}\<newline>'',
    ustr ''\<newline>'',
    ustr ''@media (min-width: 768px) {\<newline>'',
    ustr ''  .steps-grid {\<newline>'',
    ustr ''    grid-template-columns: repeat(4, minmax(0, 1fr));\<newline>'',
    ustr ''  }\<newline>'',
    ustr ''}\<newline>'',
    ustr ''\<newline>'',
    ustr ''.step {\<newline>'',
    ustr ''  border-radius: var(--radius-lg, 1rem);\<newline>'',
    ustr ''  padding: var(--space-md, 1.5rem);\<newline>'',
    ustr ''  border: 1px solid var(--border-subtle, #1f2933);\<newline>'',
    ustr ''  background: var(--surface-elevated, #020617);\<newline>'',
    ustr ''}\<newline>'',
    ustr ''\<newline>'',
    ustr ''.step-number {\<newline>'',
    ustr ''  width: 2rem;\<newline>'',
    ustr ''  height: 2rem;\<newline>'',
    ustr ''  border-radius: 50%;\<newline>'',
    ustr ''  display: flex;\<newline>'',
    ustr ''  align-items: center;\<newline>'',
    ustr ''  justify-content: center;\<newline>'',
    ustr ''  font-weight: 600;\<newline>'',
    ustr ''  margin-bottom: var(--space-sm, 0.75rem);\<newline>'',
    ustr ''  border: 1px solid var(--accent, #3b82f6);\<newline>'',
    ustr ''  color: var(--accent, #3b82f6);\<newline>'',
    ustr ''}\<newline>'',
    ustr ''\<newline>'',
    ustr ''.step-title {\<newline>'',
    ustr ''  margin-bottom: var(--space-xs, 0.5rem);\<newline>'',
    ustr ''}\<newline>'',
    ustr ''\<newline>'']\<close>

definition css_risk_classification_grid :: pystr where
  \<open>css_risk_classification_grid = concat [
    ustr ''/* Risk Classification Grid */\<newline>'',
    ustr ''.risk-grid {\<newline>'',
    ustr ''  display: grid;\<newline>'',
    ustr ''  gap: var(--space-md, 1.5rem);\<newline>'',
    ustr ''}\<newline>'',
    ustr ''\<newline>'',
    ustr ''@media (min-width: 768px) {\<newline>'',
    ustr ''  .risk-grid {\<newline>'',
    ustr ''    grid-template-columns: repeat(3, minmax(0, 1fr));\<newline>'',
    ustr ''  }\<newline>'',
    ustr ''}\<newline>'',
    ustr ''\<newline>'',
    ustr ''.risk-card {\<newline>'',
    ustr ''  border-radius: var(--radius-lg, 1rem);\<newline>'',
    ustr ''  padding: var(--space-md, 1.5rem);\<newline>'',
    ustr ''  border: 1px solid var(--border-subtle, #1f2933);\<newline>'',
    ustr ''  background: var(--surface-elevated, #020617);\<newline>'',
    ustr ''}\<newline>'',
    ustr ''\<newline>'',
    ustr ''.risk-card--critical { border-color: var(--critical, #ef4444); }\<newline>'',
    ustr ''.risk-card--high { border-color: var(--warn, #f59e0b); }\<newline>'',
    ustr ''.risk-card--medium { border-color: var(--info, #38bdf8); }\<newline>'',
    ustr ''\<newline>'',
    ustr ''.risk-card .card-note {\<newline>'',
    ustr ''  font-size: 0.9rem;\<newline>'',
    ustr ''  opacity: 0.9;\<newline>'',
    ustr ''  margin-bottom: var(--space-sm, 0.75rem);\<newline>'',
    ustr ''}\<newline>'',
    ustr ''\<newline>'']\<close>

definition css_faq_accordion :: pystr where
  \<open>css_faq_accordion = concat [
    ustr ''/* FAQ Accordion */\<newline>'',
    ustr ''.faq-list {\<newline>'',
    ustr ''  display: grid;\<newline>'',
    ustr ''  gap: var(--space-sm, 1.25rem);\<newline>'',
    ustr ''}\<newline>'',
    ustr ''\<newline>'',
    ustr ''.faq-item {\<newline>'',
    ustr ''  border-radius: var(--radius-lg, 1rem);\<newline>'',
    ustr ''  padding: 1.25rem var(--space-md, 1.5rem);\<newline>'',
    ustr ''  border: 1px solid var(--border-subtle, #1f2933);\<newline>'',
    ustr ''  background: var(--surface-elevated, #020617);\<newline>'',
    ustr ''}\<newline>'',
    ustr ''\<newline>'',
    ustr ''.faq-question {\<newline>'',
    ustr ''  margin-bottom: var(--space-xs, 0.5rem);\<newline>'',
    ustr ''}\<newline>'',
    ustr ''\<newline>'',
    ustr ''.faq-answer {\<newline>'',
    ustr ''  font-size: 0.95rem;\<newline>'',
    ustr ''  opacity: 0.95;\<newline>'',
    ustr ''}\<newline>'',
    ustr ''\<newline>'']\<close>

definition css_audit_form :: pystr where
  \<open>css_audit_form = concat [
    ustr ''/* Audit Form */\<newline>'',
    ustr ''.audit-form .form-field {\<newline>'',
    ustr ''  margin-bottom: var(--space-sm, 1rem);\<newline>'',
    ustr ''}\<newline>'',
    ustr ''\<newline>'',
    ustr ''.audit-form .btn-block {\<newline>'',
    ustr ''  width: 100%;\<newline>'',
    ustr ''}\<newline>'',
    ustr ''\<newline>'']\<close>

definition css_focus_states_for_accessibility :: pystr where
  \<open>css_focus_states_for_accessibility = concat [
    ustr ''/* Focus states for accessibility */\<newline>'',
    ustr ''.audit-form input:focus,\<newline>'',
    ustr ''.audit-form select:focus,\<newline>'',
    ustr ''.audit-form textarea:focus {\<newline>'',
    ustr ''  outline: 2px solid var(--accent, #3b82f6);\<newline>'',
    ustr ''  outline-offset: 2px;\<newline>'',
    ustr ''}\<newline>'']\<close>

definition generate_css :: pystr where
  "generate_css = concat [
     css_header, css_audit_hero_variant, css_executive_summary_grid, css_process_steps,
     css_risk_classification_grid, css_faq_accordion, css_audit_form,
     css_focus_states_for_accessibility]"

subsection \<open>README\<close>

text \<open>
  The README is an f-string: four literal parts around the version, the alignment tag
  and the current UTC time.
\<close>

definition readme_title :: pystr where
  \<open>readme_title = concat [
    ustr ''# Digital Credibility Score Audit '' @ [0x2014] @ ustr '' Implementation Package\<newline>'',
    ustr ''\<newline>'',
    ustr ''**Version:** '']\<close>

definition readme_alignment_label :: pystr where
  \<open>readme_alignment_label = concat [
    ustr ''\<newline>'',
    ustr ''**PromptCore Alignment:** '']\<close>

definition readme_generated_label :: pystr where
  \<open>readme_generated_label = concat [
    ustr ''\<newline>'',
    ustr ''**Generated:** '']\<close>

definition readme_body :: pystr where
  \<open>readme_body = concat [
    ustr ''\<newline>'',
    ustr ''\<newline>'',
    ustr ''## Contents\<newline>'',
    ustr ''\<newline>'',
    ustr ''- `src/pages/digital-credibility-score-audit.astro` '' @ [0x2014] @ ustr '' Page component\<newline>'',
    ustr ''- `styles/audit-styles.css` '' @ [0x2014] @ ustr '' Component styles\<newline>'',
    ustr ''- `public/schema-audit.json` '' @ [0x2014] @ ustr '' JSON-LD structured data\<newline>'',
    ustr ''- `docs/dcs-framework.md` '' @ [0x2014] @ ustr '' Framework documentation\<newline>'',
    ustr ''- `build-manifest.json` '' @ [0x2014] @ ustr '' Reproducibility manifest with checksums\<newline>'',
    ustr ''\<newline>'',
    ustr ''## Integration Steps\<newline>'',
    ustr ''\<newline>'',
    ustr ''1. Copy `digital-credibility-score-audit.astro` to `src/pages/`\<newline>'',
    ustr ''2. Import `audit-styles.css` in your global stylesheet\<newline>'',
    ustr ''3. Inject `schema-audit.json` via build-time import or script tag\<newline>'',
    ustr ''4. Update homepage CTAs to link to `/digital-credibility-score-audit`\<newline>'',
    ustr ''5. Configure Netlify Forms for `dcs-audit-request` form name\<newline>'',
    ustr ''\<newline>'',
    ustr ''## Verification\<newline>'',
    ustr ''\<newline>'',
    ustr ''Run checksums against `build-manifest.json` to verify artifact integrity.\<newline>'',
    ustr ''\<newline>'',
    ustr ''## Form Configuration\<newline>'',
    ustr ''\<newline>'',
    ustr ''The form includes `data-netlify="true"` and `name="dcs-audit-request"` for\<newline>'',
    ustr ''automatic Netlify Forms integration. Ensure Netlify Forms is enabled in your\<newline>'',
    ustr ''site settings.\<newline>'']\<close>

section \<open>The Python runtime and the operating system\<close>

text \<open>
  What the builder reads from its environment is collected in one record:
  the codec registry (for every encoding name other than the built-in \<open>utf-8\<close>; an
  encoder returns \<open>None\<close> where Python raises \<open>UnicodeEncodeError\<close>), \<open>str.lower\<close>,
  \<open>os.linesep\<close>, \<open>os.environ\<close>, the clock (the \<open>n\<close>-th reading of
  \<open>datetime.now(timezone.utc).isoformat()\<close>, and the local time stamp used for backup
  names), and the answers of the operating system: whether a path exists, and whether it
  refuses to create or write a path, given what happened before.
\<close>

type_synonym path = "pystr list"

datatype event =
    Write path "byte list"
  | Backup path path
  | Archive path path

type_synonym world = "event list"

datatype os_failure = Denied | Failed

fun os_exception :: "os_failure \<Rightarrow> error" where
  "os_exception Denied = PermissionError"
| "os_exception Failed = OSError"

record runtime =
  codecs :: "pystr \<Rightarrow> (pystr \<Rightarrow> byte list option) option"
  str_lower :: "pystr \<Rightarrow> pystr"
  linesep :: pystr
  environ :: "pystr \<Rightarrow> pystr option"
  utc_now :: "nat \<Rightarrow> pystr"
  local_now :: pystr
  path_exists :: "world \<Rightarrow> path \<Rightarrow> bool"
  os_fault :: "world \<Rightarrow> path \<Rightarrow> os_failure option"

definition generate_readme :: "runtime \<Rightarrow> BuildConfig \<Rightarrow> pystr" where
  "generate_readme rt config =
     readme_title @ version config @ readme_alignment_label @ promptcore_ver config @
     readme_generated_label @ utc_now rt 1 @ readme_body"

section \<open>Text encoding\<close>

text \<open>
  \<open>str.encode\<close> with the default \<open>strict\<close> error handler: the encoding of a string is
  the concatenation of the encodings of its code points, and fails if one of them has none.
  UTF-8 has no encoding for the surrogates U+D800..U+DFFF (and code points from
  \<open>0x110000\<close> on are not in a Python \<open>str\<close>).
\<close>

fun encode_chars :: "(nat \<Rightarrow> byte list option) \<Rightarrow> pystr \<Rightarrow> byte list option" where
  "encode_chars f [] = Some []"
| "encode_chars f (c # cs) =
     (case f c of
        None \<Rightarrow> None
      | Some bs \<Rightarrow> (case encode_chars f cs of None \<Rightarrow> None | Some rest \<Rightarrow> Some (bs @ rest)))"

definition utf8_char :: "nat \<Rightarrow> byte list option" where
  "utf8_char c =
     (if c < 0x80 then Some [of_nat c]
      else if c < 0x800 then Some [of_nat (0xC0 + c div 64), of_nat (0x80 + c mod 64)]
      else if 0xD800 \<le> c \<and> c < 0xE000 then None
      else if c < 0x10000 then
        Some [of_nat (0xE0 + c div 4096), of_nat (0x80 + c div 64 mod 64),
              of_nat (0x80 + c mod 64)]
      else if c < 0x110000 then
        Some [of_nat (0xF0 + c div 262144), of_nat (0x80 + c div 4096 mod 64),
              of_nat (0x80 + c div 64 mod 64), of_nat (0x80 + c mod 64)]
      else None)"

definition utf8_encode :: "pystr \<Rightarrow> byte list option" where
  "utf8_encode = encode_chars utf8_char"

definition str_encode :: "runtime \<Rightarrow> pystr \<Rightarrow> pystr \<Rightarrow> error + byte list" where
  "str_encode rt enc s =
     (if enc = ustr ''utf-8'' then
        (case utf8_encode s of None \<Rightarrow> Inl UnicodeEncodeError | Some bs \<Rightarrow> Inr bs)
      else
        (case codecs rt enc of
           None \<Rightarrow> Inl LookupError
         | Some codec \<Rightarrow>
             (case codec s of None \<Rightarrow> Inl UnicodeEncodeError | Some bs \<Rightarrow> Inr bs)))"

section \<open>Validation\<close>

record report =
  passed :: bool
  checks :: "pystr list"

text \<open>
  \<open>sub in s\<close> for strings, and \<open>str(n)\<close> for integers. In the messages below, the
  apostrophe around a quoted element is the code point \<open>0x27\<close>.
\<close>

fun startswith :: "'a list \<Rightarrow> 'a list \<Rightarrow> bool" where
  "startswith s [] = True"
| "startswith [] (p # ps) = False"
| "startswith (c # cs) (p # ps) = (c = p \<and> startswith cs ps)"

fun contains :: "'a list \<Rightarrow> 'a list \<Rightarrow> bool" where
  "contains sub [] = (sub = [])"
| "contains sub (c # cs) = (startswith (c # cs) sub \<or> contains sub cs)"

function str_nat :: "nat \<Rightarrow> pystr" where
  "str_nat n = (if n < 10 then [48 + n] else str_nat (n div 10) @ [48 + n mod 10])"
  by pat_completeness auto
termination
  by (relation "measure id") auto

definition str_int :: "int \<Rightarrow> pystr" where
  "str_int i = (if i < 0 then ustr ''-'' @ str_nat (nat (- i)) else str_nat (nat i))"

text \<open>
  The three validators. Each starts from \<open>{"passed": True, "checks": []}\<close>; a failing
  check clears \<open>passed\<close>, and every check appends its message.
\<close>

definition check_pass :: "pystr \<Rightarrow> report \<Rightarrow> report" where
  "check_pass msg results = results\<lparr>checks := checks results @ [msg]\<rparr>"

definition check_fail :: "pystr \<Rightarrow> report \<Rightarrow> report" where
  "check_fail msg results = results\<lparr>passed := False, checks := checks results @ [msg]\<rparr>"

definition validate_astro :: "runtime \<Rightarrow> pystr \<Rightarrow> BuildConfig \<Rightarrow> error + report" where
  \<open>validate_astro rt content config =
     (case str_encode rt (encoding config) content of
        Inl e \<Rightarrow> Inl e
      | Inr bytes \<Rightarrow>
          let results = \<lparr>passed = True, checks = []\<rparr>;
              size = int (length bytes);
              results =
                (if size < min_astro_size config then
                   check_fail (ustr ''FAIL: Size '' @ str_int size @ ustr ''B < '' @
                               str_int (min_astro_size config) @ ustr ''B minimum'') results
                 else check_pass (ustr ''PASS: Size '' @ str_int size @ ustr ''B'') results);
              required = [ustr ''<main>'', ustr ''</main>'', ustr ''BaseLayout'',
                          ustr ''hero-section'', ustr ''audit-form''];
              results =
                foldl (\<lambda>results elem.
                    if contains elem content then
                      check_pass (ustr ''PASS: Contains '' @ [0x27] @ elem @ [0x27]) results
                    else check_fail (ustr ''FAIL: Missing '' @ [0x27] @ elem @ [0x27]) results)
                  results required;
              results =
                (if contains (ustr ''label for='') (str_lower rt content) \<or>
                    contains (ustr ''label for="'') content then
                   check_pass (ustr ''PASS: Form labels present'') results
                 else check_fail (ustr ''FAIL: Missing form labels'') results)
          in Inr results)\<close>

text \<open>
  \<open>{item.get("@type") for item in graph}\<close>: iterating a list yields its elements, a
  dict its keys and a string its characters, and a bool is not iterable; only a dict has
  \<open>get\<close>; a list or dict value is unhashable and cannot enter the set.
\<close>

fun py_iter :: "json \<Rightarrow> error + json list" where
  "py_iter (JArr xs) = Inr xs"
| "py_iter (JObj kvs) = Inr (map (\<lambda>kv. JStr (fst kv)) kvs)"
| "py_iter (JStr s) = Inr (map (\<lambda>c. JStr [c]) s)"
| "py_iter (JBool b) = Inl TypeError"

fun hashable :: "json \<Rightarrow> bool" where
  "hashable (JStr s) = True"
| "hashable (JBool b) = True"
| "hashable (JArr xs) = False"
| "hashable (JObj kvs) = False"

fun item_type :: "json \<Rightarrow> error + json option" where
  "item_type (JObj kvs) =
     (case map_of kvs (ustr ''@type'') of
        None \<Rightarrow> Inr None
      | Some v \<Rightarrow> if hashable v then Inr (Some v) else Inl TypeError)"
| "item_type _ = Inl AttributeError"

fun item_types :: "json list \<Rightarrow> error + json option list" where
  "item_types [] = Inr []"
| "item_types (item # items) =
     (case item_type item of
        Inl e \<Rightarrow> Inl e
      | Inr t \<Rightarrow> (case item_types items of Inl e \<Rightarrow> Inl e | Inr ts \<Rightarrow> Inr (t # ts)))"

definition validate_schema :: "pydict \<Rightarrow> BuildConfig \<Rightarrow> error + report" where
  \<open>validate_schema schema config =
     (let results = \<lparr>passed = True, checks = []\<rparr>;
          results =
            (if map_of schema (ustr ''@context'') = Some (JStr (ustr ''https://schema.org''))
             then check_pass (ustr ''PASS: Valid @context'') results
             else check_fail (ustr ''FAIL: Invalid @context'') results);
          graph = (case map_of schema (ustr ''@graph'') of None \<Rightarrow> JArr [] | Some g \<Rightarrow> g)
      in case py_iter graph of
           Inl e \<Rightarrow> Inl e
         | Inr items \<Rightarrow>
             (case item_types items of
                Inl e \<Rightarrow> Inl e
              | Inr found_types \<Rightarrow>
                  Inr (foldl (\<lambda>results req_type.
                         if Some (JStr req_type) \<in> set found_types then
                           check_pass (ustr ''PASS: Contains '' @ req_type) results
                         else check_fail (ustr ''FAIL: Missing '' @ req_type) results)
                       results (required_schema_types config))))\<close>

definition validate_css :: "runtime \<Rightarrow> pystr \<Rightarrow> BuildConfig \<Rightarrow> error + report" where
  \<open>validate_css rt content config =
     (case str_encode rt (encoding config) content of
        Inl e \<Rightarrow> Inl e
      | Inr bytes \<Rightarrow>
          let results = \<lparr>passed = True, checks = []\<rparr>;
              size = int (length bytes);
              results =
                (if size < min_css_size config then
                   check_fail (ustr ''FAIL: Size '' @ str_int size @ ustr ''B < '' @
                               str_int (min_css_size config) @ ustr ''B minimum'') results
                 else check_pass (ustr ''PASS: Size '' @ str_int size @ ustr ''B'') results);
              required = [ustr ''.audit-summary-grid'', ustr ''.risk-grid'', ustr ''.faq-list'',
                          ustr ''.audit-form''];
              results =
                foldl (\<lambda>results sel.
                    if contains sel content then
                      check_pass (ustr ''PASS: Contains '' @ [0x27] @ sel @ [0x27]) results
                    else check_fail (ustr ''FAIL: Missing '' @ [0x27] @ sel @ [0x27]) results)
                  results required
          in Inr results)\<close>

section \<open>Checksums\<close>

text \<open>
  \<open>hashlib.sha256(data).hexdigest()\<close>: SHA-256 on 32-bit words, and the lower-case
  hexadecimal rendering of the 32 digest bytes. The round constants are the first 32 bits
  of the fractional parts of the cube roots of the first 64 primes, the initial hash value
  those of the square roots of the first 8; \<open>root_bits e k n 0\<close> is the integer \<open>e\<close>-th
  root of \<open>n\<close>, found bit by bit from bit \<open>k - 1\<close> down.
\<close>

definition is_prime :: "nat \<Rightarrow> bool" where
  "is_prime n = (1 < n \<and> list_all (\<lambda>d. n mod d \<noteq> 0) [2..<n])"

definition first_primes :: "nat list" where
  "first_primes = filter is_prime [2..<312]"

primrec root_bits :: "nat \<Rightarrow> nat \<Rightarrow> nat \<Rightarrow> nat \<Rightarrow> nat" where
  "root_bits e 0 n r = r"
| "root_bits e (Suc k) n r = root_bits e k n (if (r + 2 ^ k) ^ e \<le> n then r + 2 ^ k else r)"

definition root_fraction :: "nat \<Rightarrow> nat \<Rightarrow> 32 word" where
  "root_fraction e p = of_nat (root_bits e 40 (p * 2 ^ (32 * e)) 0)"

definition sha256_k :: "32 word list" where
  "sha256_k = map (root_fraction 3) first_primes"

definition sha256_init :: "32 word list" where
  "sha256_init = map (root_fraction 2) (take 8 first_primes)"

definition sha256_pad :: "byte list \<Rightarrow> byte list" where
  "sha256_pad msg =
     msg @ [0x80] @ replicate ((119 - length msg mod 64) mod 64) 0 @
     map (\<lambda>i. ucast (drop_bit (8 * (7 - i)) (of_nat (8 * length msg) :: 64 word))) [0..<8]"

fun be_words :: "byte list \<Rightarrow> 32 word list" where
  "be_words (a # b # c # d # bs) =
     (push_bit 24 (ucast a) OR push_bit 16 (ucast b) OR push_bit 8 (ucast c) OR ucast d)
       # be_words bs"
| "be_words _ = []"

fun sha256_schedule :: "nat \<Rightarrow> 32 word list \<Rightarrow> 32 word list" where
  "sha256_schedule 0 ws = ws"
| "sha256_schedule (Suc n) ws =
     (let l = length ws;
          w15 = ws ! (l - 15); w2 = ws ! (l - 2);
          s0 = word_rotr 7 w15 XOR word_rotr 18 w15 XOR drop_bit 3 w15;
          s1 = word_rotr 17 w2 XOR word_rotr 19 w2 XOR drop_bit 10 w2
      in sha256_schedule n (ws @ [ws ! (l - 16) + s0 + ws ! (l - 7) + s1]))"

fun sha256_round :: "32 word list \<Rightarrow> 32 word \<times> 32 word \<Rightarrow> 32 word list" where
  "sha256_round [a, b, c, d, e, f, g, h] (k, w) =
     (let s1 = word_rotr 6 e XOR word_rotr 11 e XOR word_rotr 25 e;
          ch = (e AND f) XOR (NOT e AND g);
          t1 = h + s1 + ch + k + w;
          s0 = word_rotr 2 a XOR word_rotr 13 a XOR word_rotr 22 a;
          maj = (a AND b) XOR (a AND c) XOR (b AND c);
          t2 = s0 + maj
      in [t1 + t2, a, b, c, d + t1, e, f, g])"
| "sha256_round st _ = st"

definition sha256_block :: "32 word list \<Rightarrow> byte list \<Rightarrow> 32 word list" where
  "sha256_block st block =
     map2 (+) st (foldl sha256_round st (zip sha256_k (sha256_schedule 48 (be_words block))))"

fun sha256_blocks :: "32 word list \<Rightarrow> byte list \<Rightarrow> 32 word list" where
  "sha256_blocks st [] = st"
| "sha256_blocks st (b # bs) =
     sha256_blocks (sha256_block st (take 64 (b # bs))) (drop 64 (b # bs))"

definition sha256 :: "byte list \<Rightarrow> byte list" where
  "sha256 msg =
     concat (map (\<lambda>w. map (\<lambda>i. ucast (drop_bit (8 * (3 - i)) w)) [0..<4])
                 (sha256_blocks sha256_init (sha256_pad msg)))"

definition hex_digit :: "nat \<Rightarrow> nat" where
  "hex_digit n = (if n < 10 then 48 + n else 87 + n)"

definition hexdigest :: "byte list \<Rightarrow> pystr" where
  "hexdigest bs = concat (map (\<lambda>b. [hex_digit (unat b div 16), hex_digit (unat b mod 16)]) bs)"

text \<open>
  \<open>compute_checksum(content, encoding="utf-8")\<close>. Every call in the builder leaves the
  encoding at its default, so the parameter is passed explicitly here.
\<close>

definition compute_checksum :: "runtime \<Rightarrow> pystr \<Rightarrow> pystr \<Rightarrow> error + pystr" where
  "compute_checksum rt content enc =
     (case str_encode rt enc content of
        Inl e \<Rightarrow> Inl e
      | Inr bytes \<Rightarrow> Inr (hexdigest (sha256 bytes)))"

section \<open>JSON serialisation\<close>

text \<open>
  \<open>json.dumps(obj, indent=2, ensure_ascii=...)\<close> on the values above. With
  \<open>ensure_ascii\<close> every code point outside \<open>0x20..0x7E\<close> is escaped (beyond the basic
  plane as a surrogate pair); without it only the quote, the backslash and the control
  characters are.
\<close>

definition hex4 :: "nat \<Rightarrow> pystr" where
  "hex4 n = [hex_digit (n div 4096 mod 16), hex_digit (n div 256 mod 16),
             hex_digit (n div 16 mod 16), hex_digit (n mod 16)]"

definition json_escape_char :: "bool \<Rightarrow> nat \<Rightarrow> pystr" where
  "json_escape_char ensure_ascii c =
     (if c = 0x22 then [0x5C, 0x22]
      else if c = 0x5C then [0x5C, 0x5C]
      else if c = 0x0A then [0x5C] @ ustr ''n''
      else if c = 0x0D then [0x5C] @ ustr ''r''
      else if c = 0x09 then [0x5C] @ ustr ''t''
      else if c = 0x08 then [0x5C] @ ustr ''b''
      else if c = 0x0C then [0x5C] @ ustr ''f''
      else if c < 0x20 then [0x5C] @ ustr ''u'' @ hex4 c
      else if \<not> ensure_ascii \<or> c < 0x7F then [c]
      else if c < 0x10000 then [0x5C] @ ustr ''u'' @ hex4 c
      else [0x5C] @ ustr ''u'' @ hex4 (0xD800 + (c - 0x10000) div 1024 mod 1024) @
           [0x5C] @ ustr ''u'' @ hex4 (0xDC00 + (c - 0x10000) mod 1024))"

definition json_string :: "bool \<Rightarrow> pystr \<Rightarrow> pystr" where
  "json_string ensure_ascii s =
     [0x22] @ concat (map (json_escape_char ensure_ascii) s) @ [0x22]"

definition newline_indent :: "nat \<Rightarrow> pystr" where
  "newline_indent level = [0x0A] @ replicate (2 * level) 0x20"

fun join :: "pystr \<Rightarrow> pystr list \<Rightarrow> pystr" where
  "join sep [] = []"
| "join sep [x] = x"
| "join sep (x # y # ys) = x @ sep @ join sep (y # ys)"

fun json_encode :: "bool \<Rightarrow> nat \<Rightarrow> json \<Rightarrow> pystr" where
  "json_encode ea level (JStr s) = json_string ea s"
| "json_encode ea level (JBool b) = (if b then ustr ''true'' else ustr ''false'')"
| "json_encode ea level (JArr xs) =
     (if xs = [] then ustr ''[]''
      else ustr ''['' @ newline_indent (level + 1) @
           join (ustr '','' @ newline_indent (level + 1))
                (map (json_encode ea (level + 1)) xs) @
           newline_indent level @ ustr '']'')"
| "json_encode ea level (JObj kvs) =
     (if kvs = [] then ustr ''{}''
      else ustr ''{'' @ newline_indent (level + 1) @
           join (ustr '','' @ newline_indent (level + 1))
                (map (\<lambda>kv. json_string ea (fst kv) @ ustr '': '' @
                            json_encode ea (level + 1) (snd kv)) kvs) @
           newline_indent level @ ustr ''}'')"

definition json_dumps :: "bool \<Rightarrow> json \<Rightarrow> pystr" where
  "json_dumps ensure_ascii obj = json_encode ensure_ascii 0 obj"

section \<open>Writing files\<close>

text \<open>
  A path is the list of its components, \<open>p / name\<close> appends one, and \<open>str(p)\<close> joins
  them with a slash. The components are taken as they are given: \<open>pathlib\<close> would drop
  what is left of an absolute component and collapse empty and \<open>.\<close> components, so a
  \<open>page_slug\<close> that is absolute or contains a separator is outside this model. The effects
  of the builder on the file system are recorded as a list of events in the order they
  happen.

  \<open>safe_write\<close>: \<open>mkdir\<close> and \<open>open\<close> may be refused by the operating system, which
  raises before anything is written. \<open>write_text\<close> opens the file in text mode, so the
  file is created (or truncated) first, every line feed becomes \<open>os.linesep\<close>, and the
  result is encoded; if the encoding fails the file is left empty. Both handlers log and
  re-raise. The value returned is the size of the file.
\<close>

definition path_str :: "path \<Rightarrow> pystr" where
  "path_str p = join (ustr ''/'') p"

definition translate_newlines :: "pystr \<Rightarrow> pystr \<Rightarrow> pystr" where
  "translate_newlines sep s = concat (map (\<lambda>c. if c = 0x0A then sep else [c]) s)"

definition safe_write ::
  "runtime \<Rightarrow> path \<Rightarrow> pystr \<Rightarrow> pystr \<Rightarrow> world \<Rightarrow> (error + nat) \<times> world" where
  "safe_write rt p content enc w =
     (case os_fault rt w p of
        Some f \<Rightarrow> (Inl (os_exception f), w)
      | None \<Rightarrow>
          (case str_encode rt enc (translate_newlines (linesep rt) content) of
             Inl e \<Rightarrow> (Inl e, w @ [Write p []])
           | Inr bytes \<Rightarrow> (Inr (length bytes), w @ [Write p bytes])))"

section \<open>Building the package\<close>

record BuildManifest =
  version :: pystr
  promptcore_ver :: pystr
  generated_at :: pystr
  hostname :: pystr
  artifacts :: "(pystr \<times> pystr) list"
  checksums :: "(pystr \<times> pystr) list"
  validation :: "(pystr \<times> report) list"

text \<open>The dict that \<open>build_package\<close> serialises into \<open>build-manifest.json\<close>.\<close>

definition report_json :: "report \<Rightarrow> json" where
  "report_json r =
     JObj [(ustr ''passed'', JBool (passed r)), (ustr ''checks'', JArr (map JStr (checks r)))]"

definition manifest_dict :: "BuildManifest \<Rightarrow> json" where
  "manifest_dict manifest = JObj [
     (ustr ''version'', JStr (version manifest)),
     (ustr ''promptcore_ver'', JStr (promptcore_ver manifest)),
     (ustr ''generated_at'', JStr (generated_at manifest)),
     (ustr ''hostname'', JStr (hostname manifest)),
     (ustr ''artifacts'', JObj (map (\<lambda>kv. (fst kv, JStr (snd kv))) (artifacts manifest))),
     (ustr ''checksums'', JObj (map (\<lambda>kv. (fst kv, JStr (snd kv))) (checksums manifest))),
     (ustr ''validation'',
        JObj (map (\<lambda>kv. (fst kv, report_json (snd kv))) (validation manifest)))]"

text \<open>
  An operation returns a value or the exception it raised, together with the events so
  far. \<open>bind_result\<close> continues after a step that has no effect on the file system,
  \<open>bind_io\<close> after one that has; an exception ends the function.
\<close>

definition py_return :: "'a \<Rightarrow> world \<Rightarrow> (error + 'a) \<times> world" where
  "py_return x w = (Inr x, w)"

definition py_raise :: "error \<Rightarrow> world \<Rightarrow> (error + 'a) \<times> world" where
  "py_raise e w = (Inl e, w)"

definition bind_result ::
  "error + 'a \<Rightarrow> ('a \<Rightarrow> world \<Rightarrow> (error + 'b) \<times> world) \<Rightarrow> world \<Rightarrow> (error + 'b) \<times> world" where
  "bind_result r k w = (case r of Inl e \<Rightarrow> (Inl e, w) | Inr x \<Rightarrow> k x w)"

definition bind_io ::
  "(world \<Rightarrow> (error + 'a) \<times> world) \<Rightarrow> ('a \<Rightarrow> world \<Rightarrow> (error + 'b) \<times> world) \<Rightarrow>
   world \<Rightarrow> (error + 'b) \<times> world" where
  "bind_io m k w =
     (case m w of (r, w') \<Rightarrow> (case r of Inl e \<Rightarrow> (Inl e, w') | Inr x \<Rightarrow> k x w'))"

text \<open>
  \<open>build_package\<close>. Logging is not modelled. The first reading of the clock stamps the
  manifest, the second one the README.
\<close>

definition build_package ::
  "runtime \<Rightarrow> path \<Rightarrow> BuildConfig \<Rightarrow> bool \<Rightarrow> world \<Rightarrow> (error + BuildManifest) \<times> world" where
  "build_package rt output_dir config dry_run =
    (let manifest = \<lparr>
           version = BuildConfig.version config,
           promptcore_ver = BuildConfig.promptcore_ver config,
           generated_at = utc_now rt 0,
           hostname =
             (case environ rt (ustr ''COMPUTERNAME'') of
                Some name \<Rightarrow> name
              | None \<Rightarrow>
                  (case environ rt (ustr ''HOSTNAME'') of
                     Some name \<Rightarrow> name
                   | None \<Rightarrow> ustr ''unknown'')),
           artifacts = [], checksums = [], validation = []\<rparr>;
         src_pages = output_dir @ [ustr ''src'', ustr ''pages''];
         styles = output_dir @ [ustr ''styles''];
         public = output_dir @ [ustr ''public''];
         docs = output_dir @ [ustr ''docs''];
         astro_content = generate_astro_content config;
         schema_content = generate_schema config;
         css_content = generate_css;
         readme_content = generate_readme rt config
     in
     bind_result (validate_astro rt astro_content config) (\<lambda>astro_validation.
     let manifest = manifest\<lparr>validation :=
           AList.update (ustr ''astro'') astro_validation (validation manifest)\<rparr> in
     bind_result (validate_schema schema_content config) (\<lambda>schema_validation.
     let manifest = manifest\<lparr>validation :=
           AList.update (ustr ''schema'') schema_validation (validation manifest)\<rparr> in
     bind_result (validate_css rt css_content config) (\<lambda>css_validation.
     let manifest = manifest\<lparr>validation :=
           AList.update (ustr ''css'') css_validation (validation manifest)\<rparr>;
         all_passed = list_all id
           [passed astro_validation, passed schema_validation, passed css_validation]
     in
     if \<not> all_passed then py_raise ValidationError
     else if dry_run then py_return manifest
     else
     let astro_path = src_pages @ [page_slug config @ ustr ''.astro''] in
     bind_io (safe_write rt astro_path astro_content (encoding config)) (\<lambda>_.
     let manifest = manifest\<lparr>artifacts :=
           AList.update (ustr ''astro'') (path_str astro_path) (artifacts manifest)\<rparr> in
     bind_result (compute_checksum rt astro_content (ustr ''utf-8'')) (\<lambda>checksum.
     let manifest = manifest\<lparr>checksums :=
           AList.update (ustr ''astro'') checksum (checksums manifest)\<rparr>;
         schema_path = public @ [ustr ''schema-audit.json''];
         schema_str = json_dumps False (JObj schema_content)
     in
     bind_io (safe_write rt schema_path schema_str (encoding config)) (\<lambda>_.
     let manifest = manifest\<lparr>artifacts :=
           AList.update (ustr ''schema'') (path_str schema_path) (artifacts manifest)\<rparr> in
     bind_result (compute_checksum rt schema_str (ustr ''utf-8'')) (\<lambda>checksum.
     let manifest = manifest\<lparr>checksums :=
           AList.update (ustr ''schema'') checksum (checksums manifest)\<rparr>;
         css_path = styles @ [ustr ''audit-styles.css'']
     in
     bind_io (safe_write rt css_path css_content (encoding config)) (\<lambda>_.
     let manifest = manifest\<lparr>artifacts :=
           AList.update (ustr ''css'') (path_str css_path) (artifacts manifest)\<rparr> in
     bind_result (compute_checksum rt css_content (ustr ''utf-8'')) (\<lambda>checksum.
     let manifest = manifest\<lparr>checksums :=
           AList.update (ustr ''css'') checksum (checksums manifest)\<rparr>;
         readme_path = docs @ [ustr ''readme.md'']
     in
     bind_io (safe_write rt readme_path readme_content (encoding config)) (\<lambda>_.
     let manifest = manifest\<lparr>artifacts :=
           AList.update (ustr ''readme'') (path_str readme_path) (artifacts manifest)\<rparr> in
     bind_result (compute_checksum rt readme_content (ustr ''utf-8'')) (\<lambda>checksum.
     let manifest = manifest\<lparr>checksums :=
           AList.update (ustr ''readme'') checksum (checksums manifest)\<rparr>;
         manifest_path = output_dir @ [ustr ''build-manifest.json''];
         manifest_str = json_dumps True (manifest_dict manifest)
     in
     bind_io (safe_write rt manifest_path manifest_str (encoding config)) (\<lambda>_.
     py_return manifest)))))))))))))"

section \<open>Backup, archive and the entry point\<close>

text \<open>
  \<open>create_backup\<close> copies an existing output directory to a sibling named after the
  local time; \<open>create_zip\<close> archives the output directory. What they copy is not
  modelled: each leaves one event when it succeeds, and raises when the operating system
  refuses its target.
\<close>

definition path_parent :: "path \<Rightarrow> path" where
  "path_parent p = butlast p"

definition path_name :: "path \<Rightarrow> pystr" where
  "path_name p = (if p = [] then [] else last p)"

definition create_backup :: "runtime \<Rightarrow> path \<Rightarrow> world \<Rightarrow> (error + path option) \<times> world" where
  "create_backup rt p w =
     (if \<not> path_exists rt w p then (Inr None, w)
      else
        let backup = path_parent p @ [path_name p @ ustr ''_backup_'' @ local_now rt] in
        case os_fault rt w backup of
          Some f \<Rightarrow> (Inl (os_exception f), w)
        | None \<Rightarrow> (Inr (Some backup), w @ [Backup p backup]))"

definition create_zip ::
  "runtime \<Rightarrow> path \<Rightarrow> path \<Rightarrow> BuildConfig \<Rightarrow> world \<Rightarrow> (error + path) \<times> world" where
  "create_zip rt source_dir output_path config w =
     (case os_fault rt w output_path of
        Some f \<Rightarrow> (Inl (os_exception f), w)
      | None \<Rightarrow> (Inr output_path, w @ [Archive source_dir output_path]))"

text \<open>
  The parsed command line. \<open>main\<close> is modelled from the parsed arguments on (on a usage
  error \<open>argparse\<close> ends the process itself, before anything below runs). The body of the
  \<open>try\<close> statement is \<open>main_try\<close>; the statement with its two handlers, which turn an
  exception into an exit code, is \<open>main_with\<close>, with the configuration as a parameter.

  \<open>setup_logging\<close> runs before the \<open>try\<close> statement: when a log file is named,
  \<open>logging.FileHandler\<close> opens it at once, and a refusal of the operating system is an
  exception that no handler of \<open>main\<close> catches. What the logger prints or appends is
  not modelled. \<open>main\<close> then runs the \<open>try\<close> statement on \<open>BuildConfig()\<close>.
  \<open>exit_status\<close> is \<open>sys.exit(main())\<close>: the value that \<open>main\<close> returned, or the
  status 1 with which the interpreter ends on an uncaught exception.
\<close>

record args =
  arg_output :: path
  arg_zip :: bool
  arg_backup :: bool
  arg_dry_run :: bool
  arg_log_file :: "path option"
  arg_verbose :: bool

definition main_try :: "runtime \<Rightarrow> BuildConfig \<Rightarrow> args \<Rightarrow> world \<Rightarrow> (error + unit) \<times> world" where
  "main_try rt config a =
     bind_io (if arg_backup a then create_backup rt (arg_output a) else py_return None) (\<lambda>_.
     bind_io (build_package rt (arg_output a) config (arg_dry_run a)) (\<lambda>manifest.
     if arg_zip a \<and> \<not> arg_dry_run a then
       let zip_path = path_parent (arg_output a) @ [path_name (arg_output a) @ ustr ''.zip''] in
       bind_io (create_zip rt (arg_output a) zip_path config) (\<lambda>_. py_return ())
     else py_return ()))"

definition main_with :: "runtime \<Rightarrow> BuildConfig \<Rightarrow> args \<Rightarrow> world \<Rightarrow> int \<times> world" where
  "main_with rt config a w =
     (case main_try rt config a w of
        (r, w') \<Rightarrow>
          (case r of
             Inr _ \<Rightarrow> (0, w')
           | Inl e \<Rightarrow> if e = ValidationError then (1, w') else (2, w')))"

definition setup_logging :: "runtime \<Rightarrow> path option \<Rightarrow> world \<Rightarrow> (error + unit) \<times> world" where
  "setup_logging rt log_path w =
     (case log_path of
        None \<Rightarrow> py_return () w
      | Some p \<Rightarrow>
          (case os_fault rt w p of
             Some f \<Rightarrow> py_raise (os_exception f) w
           | None \<Rightarrow> py_return () w))"

definition main :: "runtime \<Rightarrow> args \<Rightarrow> world \<Rightarrow> (error + int) \<times> world" where
  "main rt a =
     bind_io (setup_logging rt (arg_log_file a)) (\<lambda>_ w.
       case main_with rt BuildConfig_default a w of (code, w') \<Rightarrow> py_return code w')"


section \<open>Example environments and configurations\<close>

text \<open>
  Two codecs besides UTF-8, as Python defines them: \<open>utf-8-sig\<close> writes the byte order
  mark before the UTF-8 bytes, and \<open>cp1252\<close> has one byte for each code point below
  \<open>0x80\<close>, for \<open>0xA0..0xFF\<close> and for the 27 characters of its upper table, and none
  for any other.
\<close>

definition utf8_sig_encode :: "pystr \<Rightarrow> byte list option" where
  "utf8_sig_encode s = map_option (\<lambda>bs. [0xEF, 0xBB, 0xBF] @ bs) (utf8_encode s)"

definition cp1252_high :: "(nat \<times> nat) list" where
  "cp1252_high = [
     (0x20AC, 0x80), (0x201A, 0x82), (0x0192, 0x83), (0x201E, 0x84), (0x2026, 0x85),
     (0x2020, 0x86), (0x2021, 0x87), (0x02C6, 0x88), (0x2030, 0x89), (0x0160, 0x8A),
     (0x2039, 0x8B), (0x0152, 0x8C), (0x017D, 0x8E), (0x2018, 0x91), (0x2019, 0x92),
     (0x201C, 0x93), (0x201D, 0x94), (0x2022, 0x95), (0x2013, 0x96), (0x2014, 0x97),
     (0x02DC, 0x98), (0x2122, 0x99), (0x0161, 0x9A), (0x203A, 0x9B), (0x0153, 0x9C),
     (0x017E, 0x9E), (0x0178, 0x9F)]"

definition cp1252_char :: "nat \<Rightarrow> byte list option" where
  "cp1252_char c =
     (if c < 0x80 \<or> (0xA0 \<le> c \<and> c < 0x100) then Some [of_nat c]
      else map_option (\<lambda>b. [of_nat b]) (map_of cp1252_high c))"

definition cp1252_encode :: "pystr \<Rightarrow> byte list option" where
  "cp1252_encode = encode_chars cp1252_char"

definition ascii_lower :: "pystr \<Rightarrow> pystr" where
  "ascii_lower s = map (\<lambda>c. if 0x41 \<le> c \<and> c \<le> 0x5A then c + 0x20 else c) s"

text \<open>
  A POSIX machine on which nothing fails: line feeds are written as they are, no output
  directory exists yet, and the operating system refuses nothing. Its registry holds only
  the two codecs above, under these two names (Python's registry has many more codecs, and
  aliases for most of them); its \<open>str.lower\<close> is the one of ASCII text.
\<close>

definition posix_runtime :: runtime where
  "posix_runtime = \<lparr>
     codecs = (\<lambda>name.
       if name = ustr ''utf-8-sig'' then Some utf8_sig_encode
       else if name = ustr ''cp1252'' then Some cp1252_encode
       else None),
     str_lower = ascii_lower,
     linesep = [0x0A],
     environ = (\<lambda>name. None),
     utc_now = (\<lambda>n. ustr ''2025-01-01T00:00:00+00:00''),
     local_now = ustr ''20250101_000000'',
     path_exists = (\<lambda>w p. False),
     os_fault = (\<lambda>w p. None)\<rparr>"

definition out_dir :: path where
  "out_dir = [ustr ''audit-package'']"


text \<open>
  Configurations that differ from the default in one or two fields: a required type that
  the generated graph does not have, the same with \<open>cp1252\<close> as encoding, the encoding
  \<open>utf-8-sig\<close>, an encoding that the registry does not know, a markup floor of 20000
  bytes, and the domain and slug of the example scenario.
\<close>

definition missing_type_config :: BuildConfig where
  "missing_type_config = BuildConfig_default\<lparr>required_schema_types := [ustr ''Article'']\<rparr>"

definition cp1252_config :: BuildConfig where
  "cp1252_config = missing_type_config\<lparr>encoding := ustr ''cp1252''\<rparr>"

definition utf8_sig_config :: BuildConfig where
  "utf8_sig_config = BuildConfig_default\<lparr>encoding := ustr ''utf-8-sig''\<rparr>"



definition example_config :: BuildConfig where
  "example_config =
     BuildConfig_default\<lparr>domain := ustr ''https://example.com'', page_slug := ustr ''audit''\<rparr>"

text \<open>
  A schema whose graph lists the required types in another order and one of them twice.
\<close>

definition shuffled_nodes :: "pydict list" where
  "shuffled_nodes = [
     [(ustr ''@type'', JStr (ustr ''FAQPage''))],
     [(ustr ''name'', JStr (ustr ''untyped''))],
     [(ustr ''@type'', JStr (ustr ''Service''))],
     [(ustr ''@type'', JStr (ustr ''FAQPage''))],
     [(ustr ''@type'', JStr (ustr ''WebPage''))]]"

definition shuffled_schema :: pydict where
  "shuffled_schema = [
     (ustr ''@graph'', JArr (map JObj shuffled_nodes)),
     (ustr ''@context'', JStr (ustr ''https://schema.org''))]"




definition log_path :: path where
  "log_path = [ustr ''logs'', ustr ''build.log'']"





text \<open>
  A schema with the required \<open>@context\<close> whose graph has an entry for each of the three
  default required types, and one more entry whose \<open>@type\<close> is a list of two names, as
  JSON-LD allows.
\<close>

definition list_typed_schema :: pydict where
  "list_typed_schema = [
     (ustr ''@context'', JStr (ustr ''https://schema.org'')),
     (ustr ''@graph'', JArr [
        JObj [(ustr ''@type'', JStr (ustr ''WebPage''))],
        JObj [(ustr ''@type'', JStr (ustr ''Service''))],
        JObj [(ustr ''@type'', JStr (ustr ''FAQPage''))],
        JObj [(ustr ''@type'', JArr [JStr (ustr ''Article''), JStr (ustr ''Report'')])]])]"

section \<open>The structured-data check as the specification words it\<close>

text \<open>
  The specification states the verdict of \<open>validate_schema\<close> as a condition on the schema
  alone: \<open>@context\<close> is the string \<open>https://schema.org\<close>, and every required type is
  among the \<open>@type\<close> values of the entries of the top-level graph. \<open>spec_type_values\<close>
  collects these values, from the entries of a graph that is a list and that are dicts
  with a \<open>@type\<close>; \<open>spec_schema_passes\<close> is the condition. Both are written from the
  specification, to be compared with \<open>validate_schema\<close>, which is written from the code.
\<close>

fun entry_type :: "json \<Rightarrow> json option" where
  "entry_type (JObj kvs) = map_of kvs (ustr ''@type'')"
| "entry_type _ = None"

definition spec_type_values :: "pydict \<Rightarrow> json list" where
  "spec_type_values schema =
     (case map_of schema (ustr ''@graph'') of
        Some (JArr items) \<Rightarrow> List.map_filter entry_type items
      | _ \<Rightarrow> [])"

definition spec_schema_passes :: "pydict \<Rightarrow> BuildConfig \<Rightarrow> bool" where
  "spec_schema_passes schema config =
     (map_of schema (ustr ''@context'') = Some (JStr (ustr ''https://schema.org'')) \<and>
      list_all (\<lambda>name. JStr name \<in> set (spec_type_values schema)) (required_schema_types config))"

section \<open>Vocabulary of the proofs\<close>

text \<open>
  \<open>ascii7 s\<close>: every character of the Isabelle string is below 128. \<open>ascii_or extra s\<close>:
  every code point of \<open>s\<close> is below 128 or listed in \<open>extra\<close>. \<open>byte_count f s\<close>: the
  number of bytes that the per-character encoder \<open>f\<close> produces for \<open>s\<close>.
  \<open>json_small\<close>: every code point of every string and key of a value is below
  \<open>0xD800\<close>. \<open>failed_check\<close>: a validator returned a report that did not pass.
  \<open>raises_validation\<close>: an operation ended with \<open>ValidationError\<close>.
  \<open>typed_entry\<close>: a graph entry is a dict whose \<open>@type\<close>, if it has one, is hashable.
  \<open>graph_scannable\<close>: the graph of a schema can be iterated and all its entries are
  such dicts.
\<close>

definition ascii7 :: "string \<Rightarrow> bool" where
  "ascii7 s = list_all (\<lambda>c. \<not> digit7 c) s"

definition ascii_or :: "nat list \<Rightarrow> pystr \<Rightarrow> bool" where
  "ascii_or extra s = list_all (\<lambda>c. c < 128 \<or> c \<in> set extra) s"

definition byte_count :: "(nat \<Rightarrow> byte list option) \<Rightarrow> pystr \<Rightarrow> nat" where
  "byte_count f s = sum_list (map (\<lambda>c. case f c of None \<Rightarrow> 0 | Some bs \<Rightarrow> length bs) s)"

definition small_str :: "pystr \<Rightarrow> bool" where
  "small_str s = list_all (\<lambda>c. c < 0xD800) s"

fun json_small :: "json \<Rightarrow> bool" where
  "json_small (JStr s) = small_str s"
| "json_small (JBool b) = True"
| "json_small (JArr xs) = list_all json_small xs"
| "json_small (JObj kvs) = list_all (\<lambda>kv. small_str (fst kv) \<and> json_small (snd kv)) kvs"

fun failed_check :: "error + report \<Rightarrow> bool" where
  "failed_check (Inr r) = (\<not> passed r)"
| "failed_check (Inl e) = False"

definition raises_validation :: "(error + 'a) \<times> world \<Rightarrow> bool" where
  "raises_validation x = (fst x = Inl ValidationError)"

fun typed_entry :: "json \<Rightarrow> bool" where
  "typed_entry (JObj kvs) =
     (case map_of kvs (ustr ''@type'') of None \<Rightarrow> True | Some v \<Rightarrow> hashable v)"
| "typed_entry _ = False"

definition graph_scannable :: "pydict \<Rightarrow> bool" where
  "graph_scannable schema =
     (case py_iter (case map_of schema (ustr ''@graph'') of None \<Rightarrow> JArr [] | Some g \<Rightarrow> g) of
        Inl e \<Rightarrow> False
      | Inr items \<Rightarrow> list_all typed_entry items)"

section \<open>Lemmas\<close>

subsection \<open>Strings\<close>

lemma ustr_eq_iff [simp]: "ustr a = ustr b \<longleftrightarrow> a = b"
  by (simp add: ustr_def inj_map_eq_map inj_on_def)

lemma ustr_append: "ustr (a @ b) = ustr a @ ustr b"
  by (simp add: ustr_def)

lemma of_char_ascii7: "\<not> digit7 c \<Longrightarrow> (of_char c :: nat) < 128"
  by (cases c) (auto simp: of_bool_def)

lemma startswith_iff: "startswith s p \<longleftrightarrow> (\<exists>t. s = p @ t)"
  by (induction s p rule: startswith.induct) auto

lemma contains_iff: "contains sub s \<longleftrightarrow> (\<exists>a b. s = a @ sub @ b)"
proof (induction s)
  case Nil
  then show ?case by auto
next
  case (Cons c cs)
  show ?case
  proof
    assume "contains sub (c # cs)"
    then consider "startswith (c # cs) sub" | "contains sub cs" by auto
    then show "\<exists>a b. c # cs = a @ sub @ b"
    proof cases
      case 1
      then obtain t where "c # cs = sub @ t" by (auto simp: startswith_iff)
      then have "c # cs = [] @ sub @ t" by simp
      then show ?thesis by blast
    next
      case 2
      then obtain a b where "cs = a @ sub @ b" using Cons.IH by auto
      then have "c # cs = (c # a) @ sub @ b" by simp
      then show ?thesis by blast
    qed
  next
    assume "\<exists>a b. c # cs = a @ sub @ b"
    then obtain a b where ab: "c # cs = a @ sub @ b" by auto
    show "contains sub (c # cs)"
    proof (cases a)
      case Nil
      then have "startswith (c # cs) sub" using ab by (simp add: startswith_iff)
      then show ?thesis by simp
    next
      case (Cons x a')
      then have "cs = a' @ sub @ b" using ab by simp
      then show ?thesis using Cons.IH by auto
    qed
  qed
qed

lemma contains_concat_hd: "contains p x \<Longrightarrow> contains p (concat (x # xs))"
  unfolding contains_iff by (metis append.assoc concat.simps(2))

lemma contains_concat_tl: "contains p (concat xs) \<Longrightarrow> contains p (concat (x # xs))"
  unfolding contains_iff by (metis append.assoc concat.simps(2))

lemma contains_in_concat: "x \<in> set xs \<Longrightarrow> contains p x \<Longrightarrow> contains p (concat xs)"
proof (induction xs)
  case Nil
  then show ?case by simp
next
  case (Cons y ys)
  show ?case
  proof (cases "x = y")
    case True
    then show ?thesis using Cons.prems(2) by (simp only: contains_concat_hd)
  next
    case False
    then have "contains p (concat ys)" using Cons by simp
    then show ?thesis by (rule contains_concat_tl)
  qed
qed

lemma contains_ustr: "contains p s \<Longrightarrow> contains (ustr p) (ustr s)"
  unfolding contains_iff by (metis ustr_append)

lemma contains_nocong: "contains p s = contains p s"
  by simp

lemma startswith_nocong: "startswith s p = startswith s p"
  by simp

lemmas contains_eval =
  contains.simps startswith.simps char.inject list.inject list.distinct simp_thms

subsection \<open>The templates\<close>

lemma ascii7_simps:
  "ascii7 [] = True"
  "ascii7 (Char b0 b1 b2 b3 b4 b5 b6 b7 # s) = (\<not> b7 \<and> ascii7 s)"
  by (simp_all add: ascii7_def)

lemma ascii7_nocong: "ascii7 s = ascii7 s"
  by simp

lemma length_nocong: "length xs = length xs"
  by simp

lemma ascii_or_nocong: "ascii_or e s = ascii_or e s"
  by simp

lemma byte_count_nocong: "byte_count f s = byte_count f s"
  by simp

lemma length_simps:
  "length (c # cs) = length cs + 1"
  "length [] = 0"
  by simp_all

lemma ascii_or_simps:
  "ascii_or e (concat (l # ls)) = (ascii_or e l \<and> ascii_or e (concat ls))"
  "ascii_or e (concat []) = True"
  "ascii_or e (a @ b) = (ascii_or e a \<and> ascii_or e b)"
  "ascii_or e (replicate n c) = (n = 0 \<or> c < 128 \<or> c \<in> set e)"
  "ascii_or e (c # cs) = ((c < 128 \<or> c \<in> set e) \<and> ascii_or e cs)"
  "ascii_or e [] = True"
  by (auto simp: ascii_or_def list_all_iff)

lemma ascii_or_ustr: "ascii7 s \<Longrightarrow> ascii_or e (ustr s) = True"
  by (auto simp: ascii_or_def ascii7_def ustr_def list_all_iff of_char_ascii7)

lemma byte_count_simps:
  "byte_count f (concat (l # ls)) = byte_count f l + byte_count f (concat ls)"
  "byte_count f (concat []) = 0"
  "byte_count f (a @ b) = byte_count f a + byte_count f b"
  "byte_count f (replicate n c) = n * byte_count f [c]"
  by (induction n) (simp_all add: byte_count_def)

lemma byte_count_utf8_ustr: "ascii7 s \<Longrightarrow> byte_count utf8_char (ustr s) = length s"
proof (induction s)
  case Nil
  then show ?case by (simp add: byte_count_def ustr_def)
next
  case (Cons c s)
  then have "(of_char c :: nat) < 128" by (simp add: ascii7_def of_char_ascii7)
  with Cons show ?case by (simp add: byte_count_def ustr_def utf8_char_def ascii7_def)
qed

lemma byte_count_utf8_chars:
  "byte_count utf8_char [0x2013] = 3"
  "byte_count utf8_char [0x2014] = 3"
  "byte_count utf8_char [0x2550] = 3"
  by (simp_all add: byte_count_def utf8_char_def)

lemmas census_eval =
  ascii_or_simps ascii_or_ustr ascii7_simps simp_thms list.set insert_iff empty_iff

lemmas utf8_count_eval =
  byte_count_simps byte_count_utf8_ustr byte_count_utf8_chars ascii7_simps length_simps simp_thms

lemma astro_section_census:
  "ascii_or [0x2013, 0x2014] astro_frontmatter"
  "ascii_or [0x2013, 0x2014] astro_hero_section"
  "ascii_or [0x2013, 0x2014] astro_what_you_get"
  "ascii_or [0x2013, 0x2014] astro_executive_snapshot"
  "ascii_or [0x2013, 0x2014] astro_why_it_matters"
  "ascii_or [0x2013, 0x2014] astro_who_its_for"
  "ascii_or [0x2013, 0x2014] astro_how_it_works"
  "ascii_or [0x2013, 0x2014] astro_five_pillars"
  "ascii_or [0x2013, 0x2014] astro_sample_findings"
  "ascii_or [0x2013, 0x2014] astro_risk_grid"
  "ascii_or [0x2013, 0x2014] astro_timeline"
  "ascii_or [0x2013, 0x2014] astro_about_nextara"
  "ascii_or [0x2013, 0x2014] astro_faq"
  "ascii_or [0x2013, 0x2014] astro_cta_form"
  unfolding astro_frontmatter_def astro_hero_section_def astro_what_you_get_def
    astro_executive_snapshot_def astro_why_it_matters_def astro_who_its_for_def
    astro_how_it_works_def astro_five_pillars_def astro_sample_findings_def astro_risk_grid_def
    astro_timeline_def astro_about_nextara_def astro_faq_def astro_cta_form_def
  by (simp_all only: census_eval cong: ascii_or_nocong ascii7_nocong)

lemma astro_section_bytes:
  "byte_count utf8_char astro_frontmatter = 401"
  "byte_count utf8_char astro_hero_section = 1130"
  "byte_count utf8_char astro_what_you_get = 1227"
  "byte_count utf8_char astro_executive_snapshot = 1699"
  "byte_count utf8_char astro_why_it_matters = 1155"
  "byte_count utf8_char astro_who_its_for = 1083"
  "byte_count utf8_char astro_how_it_works = 1428"
  "byte_count utf8_char astro_five_pillars = 1985"
  "byte_count utf8_char astro_sample_findings = 1280"
  "byte_count utf8_char astro_risk_grid = 1992"
  "byte_count utf8_char astro_timeline = 852"
  "byte_count utf8_char astro_about_nextara = 723"
  "byte_count utf8_char astro_faq = 1930"
  "byte_count utf8_char astro_cta_form = 2416"
  unfolding astro_frontmatter_def astro_hero_section_def astro_what_you_get_def
    astro_executive_snapshot_def astro_why_it_matters_def astro_who_its_for_def
    astro_how_it_works_def astro_five_pillars_def astro_sample_findings_def astro_risk_grid_def
    astro_timeline_def astro_about_nextara_def astro_faq_def astro_cta_form_def
  by (simp_all only: utf8_count_eval cong: byte_count_nocong ascii7_nocong length_nocong)

lemma css_section_census:
  "ascii_or [0x2014, 0x2550] css_header"
  "ascii_or [0x2014, 0x2550] css_audit_hero_variant"
  "ascii_or [0x2014, 0x2550] css_executive_summary_grid"
  "ascii_or [0x2014, 0x2550] css_process_steps"
  "ascii_or [0x2014, 0x2550] css_risk_classification_grid"
  "ascii_or [0x2014, 0x2550] css_faq_accordion"
  "ascii_or [0x2014, 0x2550] css_audit_form"
  "ascii_or [0x2014, 0x2550] css_focus_states_for_accessibility"
  unfolding css_header_def css_audit_hero_variant_def css_executive_summary_grid_def
    css_process_steps_def css_risk_classification_grid_def css_faq_accordion_def
    css_audit_form_def css_focus_states_for_accessibility_def
  by (simp_all only: census_eval cong: ascii_or_nocong ascii7_nocong)

lemma css_section_bytes:
  "byte_count utf8_char css_header = 564"
  "byte_count utf8_char css_audit_hero_variant = 85"
  "byte_count utf8_char css_executive_summary_grid = 761"
  "byte_count utf8_char css_process_steps = 715"
  "byte_count utf8_char css_risk_classification_grid = 681"
  "byte_count utf8_char css_faq_accordion = 401"
  "byte_count utf8_char css_audit_form = 129"
  "byte_count utf8_char css_focus_states_for_accessibility = 187"
  unfolding css_header_def css_audit_hero_variant_def css_executive_summary_grid_def
    css_process_steps_def css_risk_classification_grid_def css_faq_accordion_def
    css_audit_form_def css_focus_states_for_accessibility_def
  by (simp_all only: utf8_count_eval cong: byte_count_nocong ascii7_nocong length_nocong)

lemma readme_census:
  "ascii_or [0x2014] readme_title"
  "ascii_or [0x2014] readme_alignment_label"
  "ascii_or [0x2014] readme_generated_label"
  "ascii_or [0x2014] readme_body"
  unfolding readme_title_def readme_alignment_label_def readme_generated_label_def readme_body_def
  by (simp_all only: census_eval cong: ascii_or_nocong ascii7_nocong)

lemma astro_census: "ascii_or [0x2013, 0x2014] (generate_astro_content config)"
  unfolding generate_astro_content_def
  by (simp only: ascii_or_simps astro_section_census simp_thms)

lemma astro_bytes: "byte_count utf8_char (generate_astro_content config) = 19301"
  unfolding generate_astro_content_def
  by (simp only: byte_count_simps astro_section_bytes)

lemma css_census: "ascii_or [0x2014, 0x2550] generate_css"
  unfolding generate_css_def
  by (simp only: ascii_or_simps css_section_census simp_thms)

lemma css_bytes: "byte_count utf8_char generate_css = 3523"
  unfolding generate_css_def
  by (simp only: byte_count_simps css_section_bytes)

subsection \<open>Required substrings\<close>

lemma astro_required:
  \<open>contains (ustr ''<main>'') astro_frontmatter\<close>
  \<open>contains (ustr ''</main>'') astro_cta_form\<close>
  \<open>contains (ustr ''BaseLayout'') astro_frontmatter\<close>
  \<open>contains (ustr ''hero-section'') astro_hero_section\<close>
  \<open>contains (ustr ''audit-form'') astro_hero_section\<close>
  \<open>contains (ustr ''label for="'') astro_cta_form\<close>
  unfolding astro_frontmatter_def astro_cta_form_def astro_hero_section_def
  by (((rule contains_concat_hd, rule contains_ustr,
        (simp only: contains_eval cong: contains_nocong startswith_nocong; fail))
       | rule contains_concat_tl)+)+

lemma css_required:
  \<open>contains (ustr ''.audit-summary-grid'') css_executive_summary_grid\<close>
  \<open>contains (ustr ''.risk-grid'') css_risk_classification_grid\<close>
  \<open>contains (ustr ''.faq-list'') css_faq_accordion\<close>
  \<open>contains (ustr ''.audit-form'') css_audit_form\<close>
  unfolding css_executive_summary_grid_def css_risk_classification_grid_def
    css_faq_accordion_def css_audit_form_def
  by (((rule contains_concat_hd, rule contains_ustr,
        (simp only: contains_eval cong: contains_nocong startswith_nocong; fail))
       | rule contains_concat_tl)+)+

lemma astro_contains:
  \<open>list_all (\<lambda>elem. contains elem (generate_astro_content config))
     [ustr ''<main>'', ustr ''</main>'', ustr ''BaseLayout'', ustr ''hero-section'',
      ustr ''audit-form'']\<close>
  unfolding generate_astro_content_def list_all_Cons_iff list_all_Nil_iff
  by (intro conjI TrueI; (rule contains_in_concat [rotated], rule astro_required, simp))

lemma astro_labels:
  \<open>contains (ustr ''label for="'') (generate_astro_content config)\<close>
  unfolding generate_astro_content_def
  by (rule contains_in_concat [rotated], rule astro_required, simp)

lemma css_contains:
  \<open>list_all (\<lambda>sel. contains sel generate_css)
     [ustr ''.audit-summary-grid'', ustr ''.risk-grid'', ustr ''.faq-list'',
      ustr ''.audit-form'']\<close>
  unfolding generate_css_def list_all_Cons_iff list_all_Nil_iff
  by (intro conjI TrueI; (rule contains_in_concat [rotated], rule css_required, simp))

subsection \<open>Encoding\<close>

lemma encode_chars_Some:
  "list_all (\<lambda>c. f c \<noteq> None) s \<Longrightarrow>
   \<exists>bs. encode_chars f s = Some bs \<and> length bs = byte_count f s"
  by (induction s) (auto simp: byte_count_def)

lemma encode_chars_None: "c \<in> set s \<Longrightarrow> f c = None \<Longrightarrow> encode_chars f s = None"
  by (induction s) (auto split: option.splits)

lemma encode_chars_append:
  "encode_chars f (a @ b) =
     (case encode_chars f a of
        None \<Rightarrow> None
      | Some x \<Rightarrow> (case encode_chars f b of None \<Rightarrow> None | Some y \<Rightarrow> Some (x @ y)))"
  by (induction a) (auto split: option.splits)

lemma ascii_or_encodable:
  assumes "ascii_or e s" and "\<And>c. c < 128 \<Longrightarrow> f c \<noteq> None" and "list_all (\<lambda>c. f c \<noteq> None) e"
  shows "list_all (\<lambda>c. f c \<noteq> None) s"
  using assms by (auto simp: ascii_or_def list_all_iff)

lemma ascii_or_mono: "ascii_or e s \<Longrightarrow> set e \<subseteq> set e' \<Longrightarrow> ascii_or e' s"
  by (auto simp: ascii_or_def list_all_iff)

lemma ascii_or_append: "ascii_or e (a @ b) = (ascii_or e a \<and> ascii_or e b)"
  by (simp add: ascii_or_def)


lemma utf8_small: "c < 0xD800 \<Longrightarrow> utf8_char c \<noteq> None"
  by (simp add: utf8_char_def)

lemma cp1252_ascii: "c < 128 \<Longrightarrow> cp1252_char c \<noteq> None"
  by (simp add: cp1252_char_def)



lemma astro_cp1252: "\<exists>bs. cp1252_encode (generate_astro_content config) = Some bs"
proof -
  have "list_all (\<lambda>c. cp1252_char c \<noteq> None) (generate_astro_content config)"
    by (rule ascii_or_encodable [OF astro_census cp1252_ascii])
      (simp_all add: cp1252_char_def cp1252_high_def list_all_iff)
  from encode_chars_Some [OF this] show ?thesis
    by (auto simp: cp1252_encode_def)
qed

lemma css_has_box_drawing: "0x2550 \<in> set generate_css"
  unfolding generate_css_def css_header_def by simp

lemma css_cp1252: "cp1252_encode generate_css = None"
  unfolding cp1252_encode_def
  by (rule encode_chars_None [OF css_has_box_drawing]) (simp add: cp1252_char_def cp1252_high_def)

subsection \<open>Validation\<close>

lemma passed_check_simps:
  "passed (check_pass m r) = passed r"
  "passed (check_fail m r) = False"
  by (simp_all add: check_pass_def check_fail_def)

lemma passed_check_if:
  "passed (if c then check_pass m r else check_fail m' r) = (c \<and> passed r)"
  by (simp add: check_pass_def check_fail_def)

lemma passed_foldl_checks:
  "passed (foldl (\<lambda>r x. if P x then check_pass (f x) r else check_fail (g x) r) r0 xs) =
     (passed r0 \<and> list_all P xs)"
  by (induction xs arbitrary: r0) (auto simp: check_pass_def check_fail_def)


lemma validate_astro_Inr:
  assumes "str_encode rt (encoding config) content = Inr bytes"
  shows \<open>\<exists>r. validate_astro rt content config = Inr r \<and>
    passed r =
      (min_astro_size config \<le> int (length bytes) \<and>
       list_all (\<lambda>elem. contains elem content)
         [ustr ''<main>'', ustr ''</main>'', ustr ''BaseLayout'', ustr ''hero-section'',
          ustr ''audit-form''] \<and>
       (contains (ustr ''label for='') (str_lower rt content) \<or>
        contains (ustr ''label for="'') content))\<close>
  using assms
  by (simp add: validate_astro_def Let_def passed_check_simps passed_check_if passed_foldl_checks not_less
        del: foldl.simps) auto

lemma validate_css_Inl:
  "str_encode rt (encoding config) content = Inl e \<Longrightarrow> validate_css rt content config = Inl e"
  by (simp add: validate_css_def)

lemma validate_css_Inr:
  assumes "str_encode rt (encoding config) content = Inr bytes"
  shows \<open>\<exists>r. validate_css rt content config = Inr r \<and>
    passed r =
      (min_css_size config \<le> int (length bytes) \<and>
       list_all (\<lambda>sel. contains sel content)
         [ustr ''.audit-summary-grid'', ustr ''.risk-grid'', ustr ''.faq-list'',
          ustr ''.audit-form''])\<close>
  using assms
  by (simp add: validate_css_def Let_def passed_check_simps passed_check_if passed_foldl_checks
        not_less del: foldl.simps)

lemma item_types_dicts:
  "list_all (\<lambda>n. case map_of n (ustr ''@type'') of None \<Rightarrow> True | Some v \<Rightarrow> hashable v) nodes \<Longrightarrow>
   item_types (map JObj nodes) = Inr (map (\<lambda>n. map_of n (ustr ''@type'')) nodes)"
  by (induction nodes) (auto split: option.splits)

lemma validate_schema_Inr:
  assumes "py_iter (case map_of schema (ustr ''@graph'') of None \<Rightarrow> JArr [] | Some g \<Rightarrow> g) = Inr items"
    and "item_types items = Inr found"
  shows "\<exists>r. validate_schema schema config = Inr r \<and>
    passed r =
      (map_of schema (ustr ''@context'') = Some (JStr (ustr ''https://schema.org'')) \<and>
       list_all (\<lambda>t. Some (JStr t) \<in> set found) (required_schema_types config))"
  using assms
  by (simp add: validate_schema_def Let_def passed_check_simps passed_check_if passed_foldl_checks
        del: foldl.simps) 

subsection \<open>Steps of a build\<close>

lemma bind_result_Inr:
  "(bind_result r k w = (Inr x, w')) = (\<exists>y. r = Inr y \<and> k y w = (Inr x, w'))"
  by (cases r) (auto simp: bind_result_def)

lemma bind_io_Inr:
  "(bind_io m k w = (Inr x, w')) = (\<exists>y w1. m w = (Inr y, w1) \<and> k y w1 = (Inr x, w'))"
  by (auto simp: bind_io_def split: prod.splits sum.splits)

lemma bind_result_simps:
  "bind_result (Inr y) k w = k y w"
  "bind_result (Inl e) k w = (Inl e, w)"
  by (simp_all add: bind_result_def)

lemma py_return_eq: "(py_return x w = (r, w')) = (r = Inr x \<and> w' = w)"
  by (auto simp: py_return_def)

lemma py_raise_eq: "(py_raise e w = (r, w')) = (r = Inl e \<and> w' = w)"
  by (auto simp: py_raise_def)

lemma safe_write_Inr:
  "(safe_write rt p content enc w = (Inr n, w')) =
     (os_fault rt w p = None \<and>
      (\<exists>bs. str_encode rt enc (translate_newlines (linesep rt) content) = Inr bs \<and>
            n = length bs \<and> w' = w @ [Write p bs]))"
  by (auto simp: safe_write_def split: option.splits sum.splits)

lemma compute_checksum_utf8:
  "(compute_checksum rt content (ustr ''utf-8'') = Inr s) =
     (\<exists>bs. utf8_encode content = Some bs \<and> s = hexdigest (sha256 bs))"
  by (auto simp: compute_checksum_def str_encode_def split: option.splits)

lemma str_encode_not_validation: "str_encode rt enc s \<noteq> Inl ValidationError"
  by (simp add: str_encode_def split: option.splits)

lemma os_exception_not_validation: "os_exception f \<noteq> ValidationError"
  by (cases f) simp_all

subsection \<open>What a build that returns a manifest has done\<close>

lemma build_package_dry_iff:
  "(build_package rt out config True w = (Inr m, w')) =
     (\<exists>ra rs rc.
        validate_astro rt (generate_astro_content config) config = Inr ra \<and>
        validate_schema (generate_schema config) config = Inr rs \<and>
        validate_css rt generate_css config = Inr rc \<and>
        passed ra \<and> passed rs \<and> passed rc \<and>
        w' = w \<and>
        m = \<lparr>version = BuildConfig.version config,
             promptcore_ver = BuildConfig.promptcore_ver config,
             generated_at = utc_now rt 0,
             hostname =
               (case environ rt (ustr ''COMPUTERNAME'') of
                  Some name \<Rightarrow> name
                | None \<Rightarrow>
                    (case environ rt (ustr ''HOSTNAME'') of
                       Some name \<Rightarrow> name
                     | None \<Rightarrow> ustr ''unknown'')),
             artifacts = [], checksums = [],
             validation = [(ustr ''astro'', ra), (ustr ''schema'', rs), (ustr ''css'', rc)]\<rparr>)"
  unfolding build_package_def Let_def
  by (auto simp: bind_result_Inr bind_io_Inr py_return_eq py_raise_eq)

lemma build_package_full_iff:
  "(build_package rt out config False w = (Inr m, w')) =
     (\<exists>ra rs rc ba bs bc br bm ha hs hc hr.
        validate_astro rt (generate_astro_content config) config = Inr ra \<and>
        validate_schema (generate_schema config) config = Inr rs \<and>
        validate_css rt generate_css config = Inr rc \<and>
        passed ra \<and> passed rs \<and> passed rc \<and>
        str_encode rt (encoding config)
          (translate_newlines (linesep rt) (generate_astro_content config)) = Inr ba \<and>
        str_encode rt (encoding config)
          (translate_newlines (linesep rt) (json_dumps False (JObj (generate_schema config))))
          = Inr bs \<and>
        str_encode rt (encoding config) (translate_newlines (linesep rt) generate_css) = Inr bc \<and>
        str_encode rt (encoding config)
          (translate_newlines (linesep rt) (generate_readme rt config)) = Inr br \<and>
        str_encode rt (encoding config)
          (translate_newlines (linesep rt) (json_dumps True (manifest_dict m))) = Inr bm \<and>
        utf8_encode (generate_astro_content config) = Some ha \<and>
        utf8_encode (json_dumps False (JObj (generate_schema config))) = Some hs \<and>
        utf8_encode generate_css = Some hc \<and>
        utf8_encode (generate_readme rt config) = Some hr \<and>
        os_fault rt w (out @ [ustr ''src'', ustr ''pages'', page_slug config @ ustr ''.astro'']) = None \<and>
        os_fault rt (w @ [Write (out @ [ustr ''src'', ustr ''pages'', page_slug config @ ustr ''.astro'']) ba])
          (out @ [ustr ''public'', ustr ''schema-audit.json'']) = None \<and>
        os_fault rt (w @ [Write (out @ [ustr ''src'', ustr ''pages'', page_slug config @ ustr ''.astro'']) ba,
                          Write (out @ [ustr ''public'', ustr ''schema-audit.json'']) bs])
          (out @ [ustr ''styles'', ustr ''audit-styles.css'']) = None \<and>
        os_fault rt (w @ [Write (out @ [ustr ''src'', ustr ''pages'', page_slug config @ ustr ''.astro'']) ba,
                          Write (out @ [ustr ''public'', ustr ''schema-audit.json'']) bs,
                          Write (out @ [ustr ''styles'', ustr ''audit-styles.css'']) bc])
          (out @ [ustr ''docs'', ustr ''readme.md'']) = None \<and>
        os_fault rt (w @ [Write (out @ [ustr ''src'', ustr ''pages'', page_slug config @ ustr ''.astro'']) ba,
                          Write (out @ [ustr ''public'', ustr ''schema-audit.json'']) bs,
                          Write (out @ [ustr ''styles'', ustr ''audit-styles.css'']) bc,
                          Write (out @ [ustr ''docs'', ustr ''readme.md'']) br])
          (out @ [ustr ''build-manifest.json'']) = None \<and>
        w' = w @ [Write (out @ [ustr ''src'', ustr ''pages'', page_slug config @ ustr ''.astro'']) ba,
                  Write (out @ [ustr ''public'', ustr ''schema-audit.json'']) bs,
                  Write (out @ [ustr ''styles'', ustr ''audit-styles.css'']) bc,
                  Write (out @ [ustr ''docs'', ustr ''readme.md'']) br,
                  Write (out @ [ustr ''build-manifest.json'']) bm] \<and>
        m = \<lparr>version = BuildConfig.version config,
             promptcore_ver = BuildConfig.promptcore_ver config,
             generated_at = utc_now rt 0,
             hostname =
               (case environ rt (ustr ''COMPUTERNAME'') of
                  Some name \<Rightarrow> name
                | None \<Rightarrow>
                    (case environ rt (ustr ''HOSTNAME'') of
                       Some name \<Rightarrow> name
                     | None \<Rightarrow> ustr ''unknown'')),
             artifacts =
               [(ustr ''astro'',
                 path_str (out @ [ustr ''src'', ustr ''pages'', page_slug config @ ustr ''.astro''])),
                (ustr ''schema'', path_str (out @ [ustr ''public'', ustr ''schema-audit.json''])),
                (ustr ''css'', path_str (out @ [ustr ''styles'', ustr ''audit-styles.css''])),
                (ustr ''readme'', path_str (out @ [ustr ''docs'', ustr ''readme.md'']))],
             checksums =
               [(ustr ''astro'', hexdigest (sha256 ha)), (ustr ''schema'', hexdigest (sha256 hs)),
                (ustr ''css'', hexdigest (sha256 hc)), (ustr ''readme'', hexdigest (sha256 hr))],
             validation = [(ustr ''astro'', ra), (ustr ''schema'', rs), (ustr ''css'', rc)]\<rparr>)"
  unfolding build_package_def Let_def
  by (auto simp: bind_result_Inr bind_io_Inr py_return_eq py_raise_eq safe_write_Inr
        compute_checksum_utf8)

subsection \<open>Strings without surrogates\<close>

lemma small_str_simps [simp]:
  "small_str [] = True"
  "small_str (c # cs) = (c < 0xD800 \<and> small_str cs)"
  "small_str (a @ b) = (small_str a \<and> small_str b)"
  by (simp_all add: small_str_def)

lemma small_str_ustr [simp]: "small_str (ustr s)"
proof -
  have "(of_char c :: nat) < 0xD800" for c
    by (rule less_trans [OF nat_of_char_less_256]) simp
  then show ?thesis by (simp add: small_str_def ustr_def list_all_iff)
qed

lemma small_str_concat: "list_all small_str xs \<Longrightarrow> small_str (concat xs)"
  by (induction xs) simp_all

lemma small_str_replicate [simp]: "small_str (replicate n c) = (n = 0 \<or> c < 0xD800)"
  by (induction n) auto

lemma ascii_or_small: "ascii_or e s \<Longrightarrow> list_all (\<lambda>c. c < 0xD800) e \<Longrightarrow> small_str s"
  by (fastforce simp: ascii_or_def small_str_def list_all_iff)

lemma utf8_encode_small: "small_str s \<Longrightarrow> \<exists>bs. utf8_encode s = Some bs \<and> length bs = byte_count utf8_char s"
  unfolding utf8_encode_def
  by (rule encode_chars_Some) (auto simp: small_str_def list_all_iff dest: utf8_small)

lemma hex_digit_small: "n < 16 \<Longrightarrow> hex_digit n < 0xD800"
  by (simp add: hex_digit_def)

lemma small_hex4 [simp]: "small_str (hex4 n)"
  by (simp add: hex4_def hex_digit_small)

lemma small_json_escape_char: "ea \<or> c < 0xD800 \<Longrightarrow> small_str (json_escape_char ea c)"
  by (auto simp: json_escape_char_def)

lemma small_json_string: "ea \<or> small_str s \<Longrightarrow> small_str (json_string ea s)"
proof -
  assume a: "ea \<or> small_str s"
  have "small_str (json_escape_char ea c)" if "c \<in> set s" for c
  proof (rule small_json_escape_char)
    show "ea \<or> c < 0xD800"
      using a that by (auto simp: small_str_def list_all_iff)
  qed
  then have "list_all small_str (map (json_escape_char ea) s)"
    by (simp add: list_all_iff)
  then show ?thesis
    by (simp add: json_string_def small_str_concat)
qed

lemma small_join: "small_str sep \<Longrightarrow> list_all small_str xs \<Longrightarrow> small_str (join sep xs)"
  by (induction sep xs rule: join.induct) simp_all

lemma small_newline_indent [simp]: "small_str (newline_indent n)"
  by (simp add: newline_indent_def)

lemma small_json_encode: "ea \<or> json_small j \<Longrightarrow> small_str (json_encode ea level j)"
proof (induction ea level j rule: json_encode.induct)
  case (1 ea level s)
  then show ?case by (auto simp: small_json_string)
next
  case (2 ea level b)
  then show ?case by simp
next
  case (3 ea level xs)
  show ?case
  proof (cases "xs = []")
    case True
    then show ?thesis by simp
  next
    case False
    have "small_str (json_encode ea (level + 1) x)" if "x \<in> set xs" for x
      using "3.IH" [OF False that] "3.prems" that by (auto simp: list_all_iff)
    then have "list_all small_str (map (json_encode ea (level + 1)) xs)"
      by (simp add: list_all_iff)
    then show ?thesis using False by (simp add: small_join)
  qed
next
  case (4 ea level kvs)
  show ?case
  proof (cases "kvs = []")
    case True
    then show ?thesis by simp
  next
    case False
    have "small_str (json_string ea (fst kv) @ ustr '': '' @ json_encode ea (level + 1) (snd kv))"
      if "kv \<in> set kvs" for kv
      using "4.IH" [OF False that] "4.prems" that
      by (auto simp: list_all_iff small_json_string)
    then have "list_all small_str
        (map (\<lambda>kv. json_string ea (fst kv) @ ustr '': '' @ json_encode ea (level + 1) (snd kv))
           kvs)"
      by (simp add: list_all_iff)
    then show ?thesis using False by (simp add: small_join)
  qed
qed

lemma small_json_dumps: "ea \<or> json_small j \<Longrightarrow> small_str (json_dumps ea j)"
  by (simp add: json_dumps_def small_json_encode)

lemma schema_small:
  "small_str (domain config) \<Longrightarrow> small_str (page_slug config) \<Longrightarrow>
   json_small (JObj (generate_schema config))"
  by (simp add: generate_schema_def Let_def)

lemma astro_small: "small_str (generate_astro_content config)"
  by (rule ascii_or_small [OF astro_census]) (simp add: list_all_iff)

lemma css_small: "small_str generate_css"
  by (rule ascii_or_small [OF css_census]) (simp add: list_all_iff)

lemma readme_small:
  "small_str (BuildConfig.version config) \<Longrightarrow> small_str (BuildConfig.promptcore_ver config) \<Longrightarrow>
   small_str (utc_now rt 1) \<Longrightarrow> small_str (generate_readme rt config)"
  using readme_census
  by (auto simp: generate_readme_def intro!: ascii_or_small [where e = "[0x2014]"])

lemma translate_newlines_lf [simp]: "translate_newlines [0x0A] s = s"
  by (induction s) (simp_all add: translate_newlines_def)

subsection \<open>The generated schema\<close>

lemma schema_types:
  "\<exists>items. py_iter (case map_of (generate_schema config) (ustr ''@graph'') of
                      None \<Rightarrow> JArr [] | Some g \<Rightarrow> g) = Inr items \<and>
     item_types items =
       Inr [Some (JStr (ustr ''WebPage'')), Some (JStr (ustr ''Service'')),
            Some (JStr (ustr ''FAQPage''))]"
  by (simp add: generate_schema_def Let_def)

lemma schema_context:
  "map_of (generate_schema config) (ustr ''@context'') = Some (JStr (ustr ''https://schema.org''))"
  by (simp add: generate_schema_def Let_def)

lemma validate_generated_schema:
  "\<exists>r. validate_schema (generate_schema config) config = Inr r \<and>
     passed r =
       list_all (\<lambda>t. t \<in> {ustr ''WebPage'', ustr ''Service'', ustr ''FAQPage''})
         (required_schema_types config)"
proof -
  obtain items where
    "py_iter (case map_of (generate_schema config) (ustr ''@graph'') of
                None \<Rightarrow> JArr [] | Some g \<Rightarrow> g) = Inr items"
    "item_types items =
       Inr [Some (JStr (ustr ''WebPage'')), Some (JStr (ustr ''Service'')),
            Some (JStr (ustr ''FAQPage''))]"
    using schema_types by blast
  from validate_schema_Inr [OF this, of config] show ?thesis
    by (auto simp: schema_context list_all_iff)
qed

subsection \<open>Builds that succeed\<close>

lemma safe_write_ok:
  "os_fault rt w p = None \<Longrightarrow>
   str_encode rt enc (translate_newlines (linesep rt) content) = Inr bs \<Longrightarrow>
   safe_write rt p content enc w = (Inr (length bs), w @ [Write p bs])"
  by (simp add: safe_write_def)

lemma bind_io_ok: "m w = (Inr y, w1) \<Longrightarrow> bind_io m k w = k y w1"
  by (simp add: bind_io_def)

lemma validation_passes:
  assumes enc: "\<And>s. small_str s \<Longrightarrow>
      \<exists>bs. str_encode rt (encoding config) s = Inr bs \<and> byte_count utf8_char s \<le> length bs"
    and sizes: "min_astro_size config \<le> 19301" "min_css_size config \<le> 3523"
    and types: "list_all (\<lambda>t. t \<in> {ustr ''WebPage'', ustr ''Service'', ustr ''FAQPage''})
      (required_schema_types config)"
  shows "\<exists>ra rs rc.
    validate_astro rt (generate_astro_content config) config = Inr ra \<and> passed ra \<and>
    validate_schema (generate_schema config) config = Inr rs \<and> passed rs \<and>
    validate_css rt generate_css config = Inr rc \<and> passed rc"
proof -
  obtain ba where ba: "str_encode rt (encoding config) (generate_astro_content config) = Inr ba"
    "19301 \<le> length ba"
    using enc [OF astro_small, of config] by (auto simp: astro_bytes)
  obtain bc where bc: "str_encode rt (encoding config) generate_css = Inr bc" "3523 \<le> length bc"
    using enc [OF css_small] by (auto simp: css_bytes)
  obtain ra where ra: "validate_astro rt (generate_astro_content config) config = Inr ra" "passed ra"
    using validate_astro_Inr [OF ba(1)] ba(2) sizes(1) astro_contains [of config]
      astro_labels [of config]
    by auto
  obtain rc where rc: "validate_css rt generate_css config = Inr rc" "passed rc"
    using validate_css_Inr [OF bc(1)] bc(2) sizes(2) css_contains by auto
  obtain rs where rs: "validate_schema (generate_schema config) config = Inr rs" "passed rs"
    using validate_generated_schema [of config] types by auto
  from ra rs rc show ?thesis by blast
qed

lemma build_package_succeeds:
  assumes enc: "\<And>s. small_str s \<Longrightarrow>
      \<exists>bs. str_encode rt (encoding config) s = Inr bs \<and> byte_count utf8_char s \<le> length bs"
    and lf: "linesep rt = [0x0A]"
    and os: "\<And>w p. os_fault rt w p = None"
    and sizes: "min_astro_size config \<le> 19301" "min_css_size config \<le> 3523"
    and types: "list_all (\<lambda>t. t \<in> {ustr ''WebPage'', ustr ''Service'', ustr ''FAQPage''})
      (required_schema_types config)"
    and small: "small_str (domain config)" "small_str (page_slug config)"
      "small_str (BuildConfig.version config)" "small_str (BuildConfig.promptcore_ver config)"
      "small_str (utc_now rt 1)"
  shows "\<exists>m w'. build_package rt out config dry w = (Inr m, w')"
proof -
  obtain f where f: "\<And>s. small_str s \<Longrightarrow> str_encode rt (encoding config) s = Inr (f s)"
    using enc by metis
  obtain g where g: "\<And>s. small_str s \<Longrightarrow> utf8_encode s = Some (g s)"
    using utf8_encode_small by metis
  have sum: "compute_checksum rt s (ustr ''utf-8'') = Inr (hexdigest (sha256 (g s)))"
    if "small_str s" for s
    using g [OF that] by (simp add: compute_checksum_def str_encode_def)
  have wr: "safe_write rt p s (encoding config) w0 = (Inr (length (f s)), w0 @ [Write p (f s)])"
    if "small_str s" for p s w0
    using f [OF that] by (simp add: safe_write_ok os lf)
  obtain ra rs rc where v:
    "validate_astro rt (generate_astro_content config) config = Inr ra" "passed ra"
    "validate_schema (generate_schema config) config = Inr rs" "passed rs"
    "validate_css rt generate_css config = Inr rc" "passed rc"
    using validation_passes [OF enc sizes types] by blast
  have s1: "small_str (json_dumps False (JObj (generate_schema config)))"
    by (rule small_json_dumps, rule disjI2, rule schema_small [OF small(1,2)])
  have s2: "small_str (json_dumps True j)" for j
    by (rule small_json_dumps) simp
  have s3: "small_str (generate_readme rt config)"
    by (rule readme_small [OF small(3,4,5)])
  show ?thesis
    unfolding build_package_def Let_def
    by (simp add: v bind_result_simps bind_io_ok [OF wr] sum astro_small css_small s1 s2 s3
          py_return_def py_raise_def)
qed

subsection \<open>The example environment\<close>

lemma posix_utf8:
  "small_str s \<Longrightarrow>
   \<exists>bs. str_encode posix_runtime (ustr ''utf-8'') s = Inr bs \<and> byte_count utf8_char s \<le> length bs"
  using utf8_encode_small [of s] by (auto simp: str_encode_def)

lemma posix_utf8_sig:
  "small_str s \<Longrightarrow>
   \<exists>bs. str_encode posix_runtime (ustr ''utf-8-sig'') s = Inr bs \<and>
        byte_count utf8_char s \<le> length bs"
  using utf8_encode_small [of s]
  by (auto simp: str_encode_def posix_runtime_def utf8_sig_encode_def)

lemma default_build:
  "\<exists>m w'. build_package posix_runtime out_dir BuildConfig_default dry [] = (Inr m, w')"
  by (rule build_package_succeeds)
    (simp_all add: BuildConfig_default_def posix_runtime_def posix_utf8 [unfolded posix_runtime_def])

lemma utf8_sig_build:
  "\<exists>m w'. build_package posix_runtime out_dir utf8_sig_config False [] = (Inr m, w')"
  by (rule build_package_succeeds)
    (simp_all add: utf8_sig_config_def BuildConfig_default_def posix_runtime_def
       posix_utf8_sig [unfolded posix_runtime_def])

lemma missing_type_validation:
  "\<exists>ra rs rc.
     validate_astro posix_runtime (generate_astro_content missing_type_config) missing_type_config
       = Inr ra \<and>
     validate_schema (generate_schema missing_type_config) missing_type_config = Inr rs \<and>
     validate_css posix_runtime generate_css missing_type_config = Inr rc \<and> \<not> passed rs"
proof -
  have enc: "encoding missing_type_config = ustr ''utf-8''"
    by (simp add: missing_type_config_def BuildConfig_default_def)
  obtain ba where "str_encode posix_runtime (encoding missing_type_config)
      (generate_astro_content missing_type_config) = Inr ba"
    using posix_utf8 [OF astro_small] enc by metis
  then obtain ra where ra: "validate_astro posix_runtime
      (generate_astro_content missing_type_config) missing_type_config = Inr ra"
    using validate_astro_Inr by blast
  obtain bc where "str_encode posix_runtime (encoding missing_type_config) generate_css = Inr bc"
    using posix_utf8 [OF css_small] enc by metis
  then obtain rc where rc: "validate_css posix_runtime generate_css missing_type_config = Inr rc"
    using validate_css_Inr by blast
  obtain rs where rs: "validate_schema (generate_schema missing_type_config) missing_type_config
      = Inr rs" "\<not> passed rs"
    using validate_generated_schema [of missing_type_config]
    by (auto simp: missing_type_config_def)
  from ra rs rc show ?thesis by blast
qed

subsection \<open>Where \<open>ValidationError\<close> can come from\<close>

lemma no_validation_simps:
  "\<not> raises_validation (py_return x w)"
  "raises_validation (py_raise e w) = (e = ValidationError)"
  by (simp_all add: raises_validation_def py_return_def py_raise_def)

lemma no_validation_bind_io:
  "(\<And>w0. \<not> raises_validation (m w0)) \<Longrightarrow> (\<And>y w1. \<not> raises_validation (k y w1)) \<Longrightarrow>
   \<not> raises_validation (bind_io m k w)"
proof -
  assume a: "\<And>w0. \<not> raises_validation (m w0)"
    and b: "\<And>y w1. \<not> raises_validation (k y w1)"
  obtain r w1 where mw: "m w = (r, w1)"
    by (cases "m w")
  have "r \<noteq> Inl ValidationError"
    using a [of w] mw by (simp add: raises_validation_def)
  then show ?thesis
    using b mw by (cases r) (auto simp: bind_io_def raises_validation_def)
qed

lemma no_validation_bind_result:
  "r \<noteq> Inl ValidationError \<Longrightarrow> (\<And>y w1. \<not> raises_validation (k y w1)) \<Longrightarrow>
   \<not> raises_validation (bind_result r k w)"
  by (auto simp: raises_validation_def bind_result_def split: sum.splits)

lemma no_validation_safe_write: "\<not> raises_validation (safe_write rt p content enc w)"
  using str_encode_not_validation [of rt enc "translate_newlines (linesep rt) content"]
  by (auto simp: raises_validation_def safe_write_def os_exception_not_validation
        split: option.splits sum.splits)

lemma compute_checksum_not_validation: "compute_checksum rt content enc \<noteq> Inl ValidationError"
  using str_encode_not_validation [of rt enc content]
  by (auto simp: compute_checksum_def split: sum.splits)



lemma build_package_gate:
  assumes "validate_astro rt (generate_astro_content config) config = Inr ra"
    and "validate_schema (generate_schema config) config = Inr rs"
    and "validate_css rt generate_css config = Inr rc"
  shows "\<not> (passed ra \<and> passed rs \<and> passed rc) \<Longrightarrow>
      build_package rt out config dry w = (Inl ValidationError, w)"
    and "passed ra \<and> passed rs \<and> passed rc \<Longrightarrow>
      \<not> raises_validation (build_package rt out config dry w)"
proof -
  show "build_package rt out config dry w = (Inl ValidationError, w)"
    if "\<not> (passed ra \<and> passed rs \<and> passed rc)"
    using that unfolding build_package_def Let_def
    by (auto simp: assms bind_result_simps py_raise_def list_all_iff)
  show "\<not> raises_validation (build_package rt out config dry w)"
    if "passed ra \<and> passed rs \<and> passed rc"
    using that unfolding build_package_def Let_def
    apply (simp add: assms bind_result_simps list_all_iff no_validation_simps)
    apply (intro impI no_validation_bind_io no_validation_bind_result no_validation_safe_write
        compute_checksum_not_validation no_validation_simps(1))
    done
qed

lemma build_package_validator_error:
  "validate_astro rt (generate_astro_content config) config = Inl e \<Longrightarrow>
     build_package rt out config dry w = (Inl e, w)"
  "validate_astro rt (generate_astro_content config) config = Inr ra \<Longrightarrow>
   validate_schema (generate_schema config) config = Inl e \<Longrightarrow>
     build_package rt out config dry w = (Inl e, w)"
  "validate_astro rt (generate_astro_content config) config = Inr ra \<Longrightarrow>
   validate_schema (generate_schema config) config = Inr rs \<Longrightarrow>
   validate_css rt generate_css config = Inl e \<Longrightarrow>
     build_package rt out config dry w = (Inl e, w)"
  unfolding build_package_def Let_def
  by (simp_all add: bind_result_simps)

lemma build_package_cases:
  obtains (error) e where "build_package rt out config dry w = (Inl e, w)"
      "\<not> failed_check (validate_astro rt (generate_astro_content config) config) \<or>
       \<not> failed_check (validate_schema (generate_schema config) config) \<or>
       \<not> failed_check (validate_css rt generate_css config)"
      "\<nexists>ra rs rc. validate_astro rt (generate_astro_content config) config = Inr ra \<and>
         validate_schema (generate_schema config) config = Inr rs \<and>
         validate_css rt generate_css config = Inr rc"
    | (rejected) ra rs rc where
      "validate_astro rt (generate_astro_content config) config = Inr ra"
      "validate_schema (generate_schema config) config = Inr rs"
      "validate_css rt generate_css config = Inr rc"
      "\<not> (passed ra \<and> passed rs \<and> passed rc)"
      "build_package rt out config dry w = (Inl ValidationError, w)"
    | (accepted) ra rs rc where
      "validate_astro rt (generate_astro_content config) config = Inr ra"
      "validate_schema (generate_schema config) config = Inr rs"
      "validate_css rt generate_css config = Inr rc"
      "passed ra" "passed rs" "passed rc"
      "\<not> raises_validation (build_package rt out config dry w)"
proof (cases "validate_astro rt (generate_astro_content config) config")
  case (Inl e)
  then show ?thesis using error [of e] build_package_validator_error(1) by auto
next
  case a: (Inr ra)
  show ?thesis
  proof (cases "validate_schema (generate_schema config) config")
    case (Inl e)
    then show ?thesis using error [of e] build_package_validator_error(2) [OF a] by auto
  next
    case s: (Inr rs)
    show ?thesis
    proof (cases "validate_css rt generate_css config")
      case (Inl e)
      then show ?thesis using error [of e] build_package_validator_error(3) [OF a s] by auto
    next
      case c: (Inr rc)
      show ?thesis
      proof (cases "passed ra \<and> passed rs \<and> passed rc")
        case True
        then show ?thesis using accepted [OF a s c] build_package_gate(2) [OF a s c] by blast
      next
        case False
        then show ?thesis using rejected [OF a s c] build_package_gate(1) [OF a s c] by blast
      qed
    qed
  qed
qed

subsection \<open>What is hashed and what is written\<close>

lemma written_and_hashed:
  assumes "build_package rt out config False w = (Inr m, w')"
  shows "\<exists>ha hs hc hr ba bs bc br bm.
    utf8_encode (generate_astro_content config) = Some ha \<and>
    utf8_encode (json_dumps False (JObj (generate_schema config))) = Some hs \<and>
    utf8_encode generate_css = Some hc \<and>
    utf8_encode (generate_readme rt config) = Some hr \<and>
    checksums m =
      [(ustr ''astro'', hexdigest (sha256 ha)), (ustr ''schema'', hexdigest (sha256 hs)),
       (ustr ''css'', hexdigest (sha256 hc)), (ustr ''readme'', hexdigest (sha256 hr))] \<and>
    str_encode rt (encoding config)
      (translate_newlines (linesep rt) (generate_astro_content config)) = Inr ba \<and>
    str_encode rt (encoding config)
      (translate_newlines (linesep rt) (json_dumps False (JObj (generate_schema config))))
      = Inr bs \<and>
    str_encode rt (encoding config) (translate_newlines (linesep rt) generate_css) = Inr bc \<and>
    str_encode rt (encoding config)
      (translate_newlines (linesep rt) (generate_readme rt config)) = Inr br \<and>
    w' = w @
      [Write (out @ [ustr ''src'', ustr ''pages'', page_slug config @ ustr ''.astro'']) ba,
       Write (out @ [ustr ''public'', ustr ''schema-audit.json'']) bs,
       Write (out @ [ustr ''styles'', ustr ''audit-styles.css'']) bc,
       Write (out @ [ustr ''docs'', ustr ''readme.md'']) br,
       Write (out @ [ustr ''build-manifest.json'']) bm] \<and>
    (encoding config = ustr ''utf-8'' \<and> linesep rt = [0x0A] \<longrightarrow>
       ba = ha \<and> bs = hs \<and> bc = hc \<and> br = hr)"
proof -
  from build_package_full_iff [THEN iffD1, OF assms]
  obtain ba bs bc br bm ha hs hc hr where
    h: "utf8_encode (generate_astro_content config) = Some ha"
      "utf8_encode (json_dumps False (JObj (generate_schema config))) = Some hs"
      "utf8_encode generate_css = Some hc"
      "utf8_encode (generate_readme rt config) = Some hr"
    and b: "str_encode rt (encoding config)
        (translate_newlines (linesep rt) (generate_astro_content config)) = Inr ba"
      "str_encode rt (encoding config)
        (translate_newlines (linesep rt) (json_dumps False (JObj (generate_schema config))))
        = Inr bs"
      "str_encode rt (encoding config) (translate_newlines (linesep rt) generate_css) = Inr bc"
      "str_encode rt (encoding config)
        (translate_newlines (linesep rt) (generate_readme rt config)) = Inr br"
    and w: "w' = w @
      [Write (out @ [ustr ''src'', ustr ''pages'', page_slug config @ ustr ''.astro'']) ba,
       Write (out @ [ustr ''public'', ustr ''schema-audit.json'']) bs,
       Write (out @ [ustr ''styles'', ustr ''audit-styles.css'']) bc,
       Write (out @ [ustr ''docs'', ustr ''readme.md'']) br,
       Write (out @ [ustr ''build-manifest.json'']) bm]"
    and c: "checksums m =
      [(ustr ''astro'', hexdigest (sha256 ha)), (ustr ''schema'', hexdigest (sha256 hs)),
       (ustr ''css'', hexdigest (sha256 hc)), (ustr ''readme'', hexdigest (sha256 hr))]"
    by (elim exE conjE) (rule that, simp_all)
  have "ba = ha \<and> bs = hs \<and> bc = hc \<and> br = hr"
    if "encoding config = ustr ''utf-8''" "linesep rt = [0x0A]"
    using h b that by (simp add: str_encode_def)
  with h b w c show ?thesis
    by (rule_tac x = ha in exI, rule_tac x = hs in exI, rule_tac x = hc in exI,
        rule_tac x = hr in exI, rule_tac x = ba in exI, rule_tac x = bs in exI,
        rule_tac x = bc in exI, rule_tac x = br in exI, rule_tac x = bm in exI) simp
qed

subsection \<open>Dry runs and rejected builds\<close>

lemma dry_run_world: "snd (build_package rt out config True w) = w"
proof (cases rule: build_package_cases [of rt out config True w])
  case (error e)
  then show ?thesis by simp
next
  case (rejected ra rs rc)
  then show ?thesis by simp
next
  case (accepted ra rs rc)
  then show ?thesis
    unfolding build_package_def Let_def
    by (simp add: bind_result_simps py_return_def list_all_iff)
qed

lemma validate_astro_not_validation: "validate_astro rt content config \<noteq> Inl ValidationError"
  using str_encode_not_validation [of rt "encoding config" content]
  by (auto simp: validate_astro_def Let_def split: sum.splits)

lemma validate_css_not_validation: "validate_css rt content config \<noteq> Inl ValidationError"
  using str_encode_not_validation [of rt "encoding config" content]
  by (auto simp: validate_css_def Let_def split: sum.splits)

lemma item_type_not_validation: "item_type item \<noteq> Inl ValidationError"
  by (cases item) (auto split: option.splits)

lemma item_types_not_validation: "item_types items \<noteq> Inl ValidationError"
  by (induction items) (auto simp: item_type_not_validation split: sum.splits)

lemma py_iter_not_validation: "py_iter g \<noteq> Inl ValidationError"
  by (cases g) auto

lemma validate_schema_not_validation: "validate_schema schema config \<noteq> Inl ValidationError"
  using py_iter_not_validation item_types_not_validation
  by (auto simp: validate_schema_def Let_def split: sum.splits)


subsection \<open>The scan of the graph\<close>

lemma item_type_typed: "typed_entry item \<Longrightarrow> item_type item = Inr (entry_type item)"
  by (cases item) (auto split: option.splits)

lemma item_type_untyped:
  "\<not> typed_entry item \<Longrightarrow> item_type item = Inl TypeError \<or> item_type item = Inl AttributeError"
  by (cases item) (auto split: option.splits)

lemma item_types_typed:
  "list_all typed_entry items \<Longrightarrow> item_types items = Inr (map entry_type items)"
  by (induction items) (simp_all add: item_type_typed)

lemma item_types_untyped:
  "\<not> list_all typed_entry items \<Longrightarrow>
   item_types items = Inl TypeError \<or> item_types items = Inl AttributeError"
proof (induction items)
  case Nil
  then show ?case by simp
next
  case (Cons item items)
  show ?case
  proof (cases "typed_entry item")
    case True
    with Cons show ?thesis by (auto simp: item_type_typed)
  next
    case False
    from item_type_untyped [OF this] show ?thesis by auto
  qed
qed

lemma py_iter_error: "py_iter g = Inl e \<Longrightarrow> e = TypeError"
  by (cases g) auto

lemma found_type_iff:
  "(Some v \<in> set (map f items)) = (v \<in> set (List.map_filter f items))"
  by (induction items) (auto simp: map_filter_def)

lemma scanned_type_values:
  assumes "py_iter (case map_of schema (ustr ''@graph'') of None \<Rightarrow> JArr [] | Some g \<Rightarrow> g) = Inr items"
    and "list_all typed_entry items"
  shows "set (List.map_filter entry_type items) = set (spec_type_values schema)"
proof (cases "map_of schema (ustr ''@graph'')")
  case None
  with assms show ?thesis by (auto simp: spec_type_values_def map_filter_def)
next
  case (Some g)
  show ?thesis
  proof (cases g)
    case (JArr xs)
    with Some assms show ?thesis by (simp add: spec_type_values_def)
  next
    case (JStr s)
    with Some assms have "s = []" by (cases s) auto
    with Some JStr assms show ?thesis by (auto simp: spec_type_values_def map_filter_def)
  next
    case (JObj kvs)
    with Some assms have "kvs = []" by (cases kvs) auto
    with Some JObj assms show ?thesis by (auto simp: spec_type_values_def map_filter_def)
  next
    case (JBool b)
    with Some assms show ?thesis by simp
  qed
qed

lemma validate_schema_scannable:
  assumes "graph_scannable schema"
  shows "\<exists>r. validate_schema schema config = Inr r \<and> passed r = spec_schema_passes schema config"
proof -
  from assms obtain items where
    i: "py_iter (case map_of schema (ustr ''@graph'') of None \<Rightarrow> JArr [] | Some g \<Rightarrow> g) = Inr items"
    and t: "list_all typed_entry items"
    by (auto simp: graph_scannable_def split: sum.splits)
  have found: "(Some (JStr name) \<in> set (map entry_type items)) =
      (JStr name \<in> set (spec_type_values schema))" for name
    by (simp only: found_type_iff scanned_type_values [OF i t])
  from validate_schema_Inr [OF i item_types_typed [OF t], of config]
  show ?thesis
    by (simp only: spec_schema_passes_def found)
qed

lemma validate_schema_unscannable:
  assumes "\<not> graph_scannable schema"
  shows "validate_schema schema config = Inl TypeError \<or>
    validate_schema schema config = Inl AttributeError"
proof (cases "py_iter (case map_of schema (ustr ''@graph'') of None \<Rightarrow> JArr [] | Some g \<Rightarrow> g)")
  case (Inl e)
  with py_iter_error [OF Inl] show ?thesis
    by (simp add: validate_schema_def Let_def)
next
  case (Inr items)
  with assms have "\<not> list_all typed_entry items"
    by (simp add: graph_scannable_def)
  from item_types_untyped [OF this] Inr show ?thesis
    by (auto simp: validate_schema_def Let_def)
qed

subsection \<open>Code points of the templates\<close>














subsection \<open>A registry with an alias of UTF-8\<close>



subsection \<open>The entry point\<close>















section \<open>The claims\<close>

text \<open>
  C8. The page markup does not depend on the \<open>domain\<close> or \<open>page_slug\<close> fields: two
  configurations that differ only there yield the same markup.
\<close>

theorem markup_ignores_domain_and_slug:
  "generate_astro_content (config\<lparr>domain := d, page_slug := s\<rparr>) = generate_astro_content config"
  by (simp add: generate_astro_content_def)

text \<open>
  C5. The \<open>@id\<close> and the \<open>url\<close> of the first node of the generated graph are the
  domain, a slash and the page slug; with domain \<open>https://example.com\<close> and slug
  \<open>audit\<close> the \<open>@id\<close> is exactly \<open>https://example.com/audit\<close>.
\<close>

theorem schema_first_node_id:
  "(\<exists>node rest.
      map_of (generate_schema config) (ustr ''@graph'') = Some (JArr (JObj node # rest)) \<and>
      map_of node (ustr ''@id'') = Some (JStr (domain config @ ustr ''/'' @ page_slug config)) \<and>
      map_of node (ustr ''url'') = Some (JStr (domain config @ ustr ''/'' @ page_slug config))) \<and>
   (\<exists>node rest.
      map_of (generate_schema example_config) (ustr ''@graph'') = Some (JArr (JObj node # rest)) \<and>
      map_of node (ustr ''@id'') = Some (JStr (ustr ''https://example.com/audit'')))"
  by (simp add: generate_schema_def Let_def example_config_def ustr_append [symmetric])

text \<open>
  C4 as stated fails on the code. The graph below has an entry for each of the three
  required types and a fourth entry whose \<open>@type\<close> is a list of two names, and its
  \<open>@context\<close> is the required string: the condition of the claim holds, but the set of
  found types cannot take the list, and \<open>validate_schema\<close> raises \<open>TypeError\<close> instead of
  returning a report.
\<close>

theorem list_valued_type_raises:
  "spec_schema_passes list_typed_schema BuildConfig_default \<and>
   validate_schema list_typed_schema BuildConfig_default = Inl TypeError"
  by (simp add: spec_schema_passes_def spec_type_values_def list_typed_schema_def
        BuildConfig_default_def validate_schema_def Let_def map_filter_def)

text \<open>
  C4, amended. \<open>validate_schema\<close> returns a report with \<open>passed = True\<close> exactly if
  \<open>@context\<close> is the string \<open>https://schema.org\<close>, every required type is among the
  \<open>@type\<close> values of the graph entries (a set test: neither order nor multiplicity of the
  entries matters), and the graph can be scanned: it is iterable, every entry is a dict,
  and every \<open>@type\<close> value is hashable. If the graph can be scanned, a report is returned
  and its verdict is the condition of the claim; if not, \<open>validate_schema\<close> raises
  \<open>TypeError\<close> or \<open>AttributeError\<close> and returns no report.
\<close>

theorem validate_schema_passed_iff:
  "((\<exists>r. validate_schema schema config = Inr r \<and> passed r) \<longleftrightarrow>
      spec_schema_passes schema config \<and> graph_scannable schema) \<and>
   (graph_scannable schema \<longrightarrow>
      (\<exists>r. validate_schema schema config = Inr r \<and>
           passed r = spec_schema_passes schema config)) \<and>
   (\<not> graph_scannable schema \<longrightarrow>
      validate_schema schema config = Inl TypeError \<or>
      validate_schema schema config = Inl AttributeError)"
proof (cases "graph_scannable schema")
  case True
  with validate_schema_scannable [OF True, of config] show ?thesis by auto
next
  case False
  with validate_schema_unscannable [OF False, of config] show ?thesis by auto
qed

theorem validate_schema_passed_iff_witness:
  "graph_scannable shuffled_schema \<and>
   spec_schema_passes shuffled_schema BuildConfig_default \<and>
   (\<exists>r. validate_schema shuffled_schema BuildConfig_default = Inr r \<and> passed r) \<and>
   \<not> graph_scannable list_typed_schema \<and>
   \<not> (\<exists>r. validate_schema list_typed_schema BuildConfig_default = Inr r \<and> passed r)"
proof -
  have s: "graph_scannable shuffled_schema" "spec_schema_passes shuffled_schema BuildConfig_default"
    "\<not> graph_scannable list_typed_schema"
    by (simp_all add: graph_scannable_def spec_schema_passes_def spec_type_values_def
          shuffled_schema_def shuffled_nodes_def list_typed_schema_def BuildConfig_default_def
          map_filter_def)
  from validate_schema_passed_iff [of shuffled_schema BuildConfig_default]
    validate_schema_passed_iff [of list_typed_schema BuildConfig_default] s
  show ?thesis by blast
qed

text \<open>
  C10. The manifest returned by a build that wrote its files has path and checksum
  entries for exactly \<open>astro\<close>, \<open>schema\<close>, \<open>css\<close> and \<open>readme\<close>, in this order (none
  for the manifest file), and validation reports for exactly \<open>astro\<close>, \<open>schema\<close> and
  \<open>css\<close>.
\<close>

theorem manifest_keys:
  assumes "build_package rt out config False w = (Inr m, w')"
  shows "map fst (artifacts m) = [ustr ''astro'', ustr ''schema'', ustr ''css'', ustr ''readme''] \<and>
    map fst (checksums m) = [ustr ''astro'', ustr ''schema'', ustr ''css'', ustr ''readme''] \<and>
    map fst (validation m) = [ustr ''astro'', ustr ''schema'', ustr ''css'']"
  using assms by (auto simp: build_package_full_iff)

theorem manifest_keys_witness:
  "\<exists>m w'. build_package posix_runtime out_dir BuildConfig_default False [] = (Inr m, w') \<and>
     map fst (artifacts m) = [ustr ''astro'', ustr ''schema'', ustr ''css'', ustr ''readme''] \<and>
     map fst (checksums m) = [ustr ''astro'', ustr ''schema'', ustr ''css'', ustr ''readme''] \<and>
     map fst (validation m) = [ustr ''astro'', ustr ''schema'', ustr ''css'']"
proof -
  obtain m w' where b: "build_package posix_runtime out_dir BuildConfig_default False [] = (Inr m, w')"
    using default_build by blast
  from manifest_keys [OF b] b show ?thesis
    by (intro exI [of _ m] exI [of _ w']) simp
qed




text \<open>
  C2 fails on the code. With the encoding \<open>utf-8-sig\<close> the build succeeds, each of the
  four artifact files starts with the byte order mark, and the manifest records the
  digests of the contents without it: what is hashed is not what is written.
\<close>

theorem utf8_sig_checksum_mismatch:
  "\<exists>m ha hs hc hr bm.
     build_package posix_runtime out_dir utf8_sig_config False [] =
       (Inr m,
        [Write (out_dir @ [ustr ''src'', ustr ''pages'', page_slug utf8_sig_config @ ustr ''.astro''])
           ([0xEF, 0xBB, 0xBF] @ ha),
         Write (out_dir @ [ustr ''public'', ustr ''schema-audit.json'']) ([0xEF, 0xBB, 0xBF] @ hs),
         Write (out_dir @ [ustr ''styles'', ustr ''audit-styles.css'']) ([0xEF, 0xBB, 0xBF] @ hc),
         Write (out_dir @ [ustr ''docs'', ustr ''readme.md'']) ([0xEF, 0xBB, 0xBF] @ hr),
         Write (out_dir @ [ustr ''build-manifest.json'']) bm]) \<and>
     checksums m =
       [(ustr ''astro'', hexdigest (sha256 ha)), (ustr ''schema'', hexdigest (sha256 hs)),
        (ustr ''css'', hexdigest (sha256 hc)), (ustr ''readme'', hexdigest (sha256 hr))] \<and>
     [0xEF, 0xBB, 0xBF] @ ha \<noteq> ha \<and> [0xEF, 0xBB, 0xBF] @ hs \<noteq> hs \<and>
     [0xEF, 0xBB, 0xBF] @ hc \<noteq> hc \<and> [0xEF, 0xBB, 0xBF] @ hr \<noteq> hr"
proof -
  obtain m w' where b: "build_package posix_runtime out_dir utf8_sig_config False [] = (Inr m, w')"
    using utf8_sig_build by blast
  have e: "encoding utf8_sig_config = ustr ''utf-8-sig''" "linesep posix_runtime = [0x0A]"
    "codecs posix_runtime (ustr ''utf-8-sig'') = Some utf8_sig_encode"
    by (simp_all add: utf8_sig_config_def posix_runtime_def)
  have sig: "str_encode posix_runtime (ustr ''utf-8-sig'') s = Inr bs \<Longrightarrow> utf8_encode s = Some h \<Longrightarrow>
      bs = [0xEF, 0xBB, 0xBF] @ h" for s bs h
    by (simp add: str_encode_def e(3) utf8_sig_encode_def)
  from written_and_hashed [OF b] obtain ha hs hc hr ba bs bc br bm where
    h: "utf8_encode (generate_astro_content utf8_sig_config) = Some ha"
      "utf8_encode (json_dumps False (JObj (generate_schema utf8_sig_config))) = Some hs"
      "utf8_encode generate_css = Some hc"
      "utf8_encode (generate_readme posix_runtime utf8_sig_config) = Some hr"
    and c: "checksums m =
      [(ustr ''astro'', hexdigest (sha256 ha)), (ustr ''schema'', hexdigest (sha256 hs)),
       (ustr ''css'', hexdigest (sha256 hc)), (ustr ''readme'', hexdigest (sha256 hr))]"
    and w: "str_encode posix_runtime (encoding utf8_sig_config)
        (translate_newlines (linesep posix_runtime) (generate_astro_content utf8_sig_config))
        = Inr ba"
      "str_encode posix_runtime (encoding utf8_sig_config)
        (translate_newlines (linesep posix_runtime)
           (json_dumps False (JObj (generate_schema utf8_sig_config)))) = Inr bs"
      "str_encode posix_runtime (encoding utf8_sig_config)
        (translate_newlines (linesep posix_runtime) generate_css) = Inr bc"
      "str_encode posix_runtime (encoding utf8_sig_config)
        (translate_newlines (linesep posix_runtime)
           (generate_readme posix_runtime utf8_sig_config)) = Inr br"
    and w': "w' = [] @
      [Write (out_dir @ [ustr ''src'', ustr ''pages'', page_slug utf8_sig_config @ ustr ''.astro'']) ba,
       Write (out_dir @ [ustr ''public'', ustr ''schema-audit.json'']) bs,
       Write (out_dir @ [ustr ''styles'', ustr ''audit-styles.css'']) bc,
       Write (out_dir @ [ustr ''docs'', ustr ''readme.md'']) br,
       Write (out_dir @ [ustr ''build-manifest.json'']) bm]"
    by (elim exE conjE) (rule that)
  note w2 = w [unfolded e(1,2) translate_newlines_lf]
  have "ba = [0xEF, 0xBB, 0xBF] @ ha" "bs = [0xEF, 0xBB, 0xBF] @ hs"
    "bc = [0xEF, 0xBB, 0xBF] @ hc" "br = [0xEF, 0xBB, 0xBF] @ hr"
    by (rule sig [OF w2(1) h(1)], rule sig [OF w2(2) h(2)], rule sig [OF w2(3) h(3)],
        rule sig [OF w2(4) h(4)])
  with b c w' show ?thesis
    by (rule_tac x = m in exI, rule_tac x = ha in exI, rule_tac x = hs in exI,
        rule_tac x = hc in exI, rule_tac x = hr in exI, rule_tac x = bm in exI) simp
qed

text \<open>
  C3. A dry run that passes validation writes nothing and returns a manifest without
  path or checksum entries; its validation map holds the three reports of the validators,
  all passed, and a full run with the same configuration that returns a manifest returns
  the same validation map; a full run does not end with \<open>ValidationError\<close> either.
\<close>

theorem dry_run_writes_nothing:
  assumes "build_package rt out config True w = (Inr m, w')"
  shows "w' = w \<and> artifacts m = [] \<and> checksums m = [] \<and>
    (\<exists>ra rs rc.
       validate_astro rt (generate_astro_content config) config = Inr ra \<and>
       validate_schema (generate_schema config) config = Inr rs \<and>
       validate_css rt generate_css config = Inr rc \<and>
       passed ra \<and> passed rs \<and> passed rc \<and>
       validation m = [(ustr ''astro'', ra), (ustr ''schema'', rs), (ustr ''css'', rc)]) \<and>
    (\<forall>m2 w2. build_package rt out config False w = (Inr m2, w2) \<longrightarrow>
       validation m2 = validation m) \<and>
    fst (build_package rt out config False w) \<noteq> Inl ValidationError"
proof -
  from build_package_dry_iff [THEN iffD1, OF assms]
  obtain ra rs rc where
    v: "validate_astro rt (generate_astro_content config) config = Inr ra"
      "validate_schema (generate_schema config) config = Inr rs"
      "validate_css rt generate_css config = Inr rc"
    and p: "passed ra" "passed rs" "passed rc"
    and m: "w' = w" "artifacts m = []" "checksums m = []"
      "validation m = [(ustr ''astro'', ra), (ustr ''schema'', rs), (ustr ''css'', rc)]"
    by (elim exE conjE) (rule that, simp_all)
  have full: "validation m2 = validation m"
    if "build_package rt out config False w = (Inr m2, w2)" for m2 w2
  proof -
    from build_package_full_iff [THEN iffD1, OF that]
    obtain ra' rs' rc' where
      "validate_astro rt (generate_astro_content config) config = Inr ra'"
      "validate_schema (generate_schema config) config = Inr rs'"
      "validate_css rt generate_css config = Inr rc'"
      "validation m2 = [(ustr ''astro'', ra'), (ustr ''schema'', rs'), (ustr ''css'', rc')]"
      by (elim exE conjE) (rule that, simp_all)
    with v m(4) show ?thesis by simp
  qed
  have "\<not> raises_validation (build_package rt out config False w)"
    using build_package_gate(2) [OF v] p by simp
  then have "fst (build_package rt out config False w) \<noteq> Inl ValidationError"
    by (simp add: raises_validation_def)
  with v p m full show ?thesis by blast
qed

theorem dry_run_writes_nothing_witness:
  "\<exists>m. build_package posix_runtime out_dir BuildConfig_default True [] = (Inr m, []) \<and>
     artifacts m = [] \<and> checksums m = [] \<and>
     map fst (validation m) = [ustr ''astro'', ustr ''schema'', ustr ''css'']"
proof -
  obtain m w' where b: "build_package posix_runtime out_dir BuildConfig_default True [] = (Inr m, w')"
    using default_build by blast
  from dry_run_writes_nothing [OF b] obtain ra rs rc where
    "w' = []" "artifacts m = []" "checksums m = []"
    "validation m = [(ustr ''astro'', ra), (ustr ''schema'', rs), (ustr ''css'', rc)]"
    by (elim exE conjE) (rule that)
  with b show ?thesis
    by (rule_tac x = m in exI) simp
qed

text \<open>
  C1 as stated fails on the code: a check can fail and \<open>build_package\<close> still raise
  another exception. With \<open>cp1252\<close> as encoding and a required type that the graph does
  not have, the schema report does not pass, and then \<open>validate_css\<close> raises
  \<open>UnicodeEncodeError\<close>, because the stylesheet contains U+2550; nothing is written.
\<close>

theorem encoding_error_masks_failed_check:
  "failed_check (validate_schema (generate_schema cp1252_config) cp1252_config) \<and>
   build_package posix_runtime out_dir cp1252_config False [] = (Inl UnicodeEncodeError, [])"
proof -
  have enc: "encoding cp1252_config = ustr ''cp1252''"
    "codecs posix_runtime (ustr ''cp1252'') = Some cp1252_encode"
    by (simp_all add: cp1252_config_def missing_type_config_def posix_runtime_def)
  obtain ba where "cp1252_encode (generate_astro_content cp1252_config) = Some ba"
    using astro_cp1252 by blast
  then have "str_encode posix_runtime (encoding cp1252_config)
      (generate_astro_content cp1252_config) = Inr ba"
    by (simp add: str_encode_def enc)
  then obtain ra where va: "validate_astro posix_runtime
      (generate_astro_content cp1252_config) cp1252_config = Inr ra"
    using validate_astro_Inr by blast
  obtain rs where vs: "validate_schema (generate_schema cp1252_config) cp1252_config = Inr rs"
    and ps: "\<not> passed rs"
    using validate_generated_schema [of cp1252_config]
    by (auto simp: cp1252_config_def missing_type_config_def)
  have "str_encode posix_runtime (encoding cp1252_config) generate_css = Inl UnicodeEncodeError"
    by (simp add: str_encode_def enc css_cp1252)
  then have vc: "validate_css posix_runtime generate_css cp1252_config = Inl UnicodeEncodeError"
    by (rule validate_css_Inl)
  from build_package_validator_error(3) [OF va vs vc] vs ps show ?thesis
    by simp
qed

text \<open>
  C1, amended. If the three validators return their reports and one of them did not pass,
  \<open>build_package\<close> raises \<open>ValidationError\<close> and the file system is as it was. Whenever
  a returned report did not pass, also when a later validator raises instead, nothing is
  written and no manifest is returned. If anything was written, the run was not a dry run
  and all three reports had passed.
\<close>

theorem validation_gate:
  "(validate_astro rt (generate_astro_content config) config = Inr ra \<and>
    validate_schema (generate_schema config) config = Inr rs \<and>
    validate_css rt generate_css config = Inr rc \<and>
    \<not> (passed ra \<and> passed rs \<and> passed rc) \<longrightarrow>
      build_package rt out config dry w = (Inl ValidationError, w)) \<and>
   (failed_check (validate_astro rt (generate_astro_content config) config) \<or>
    failed_check (validate_schema (generate_schema config) config) \<or>
    failed_check (validate_css rt generate_css config) \<longrightarrow>
      snd (build_package rt out config dry w) = w \<and>
      (\<forall>m. fst (build_package rt out config dry w) \<noteq> Inr m)) \<and>
   (snd (build_package rt out config dry w) \<noteq> w \<longrightarrow>
      \<not> dry \<and>
      (\<exists>ra rs rc.
         validate_astro rt (generate_astro_content config) config = Inr ra \<and>
         validate_schema (generate_schema config) config = Inr rs \<and>
         validate_css rt generate_css config = Inr rc \<and>
         passed ra \<and> passed rs \<and> passed rc))"
proof (cases rule: build_package_cases [of rt out config dry w])
  case (error e)
  then show ?thesis by auto
next
  case (rejected ra' rs' rc')
  then show ?thesis by auto
next
  case (accepted ra' rs' rc')
  then have "\<not> dry" if "snd (build_package rt out config dry w) \<noteq> w"
    using that dry_run_world [of rt out config w] by (cases dry) simp_all
  with accepted(1-6) show ?thesis by auto
qed

theorem validation_gate_witness:
  "failed_check (validate_schema (generate_schema missing_type_config) missing_type_config) \<and>
   build_package posix_runtime out_dir missing_type_config False [] = (Inl ValidationError, []) \<and>
   (\<exists>m w'. build_package posix_runtime out_dir BuildConfig_default False [] = (Inr m, w') \<and>
      w' \<noteq> [] \<and>
      \<not> failed_check (validate_css posix_runtime generate_css BuildConfig_default))"
proof -
  obtain ra rs rc where v:
    "validate_astro posix_runtime (generate_astro_content missing_type_config) missing_type_config
       = Inr ra"
    "validate_schema (generate_schema missing_type_config) missing_type_config = Inr rs"
    "validate_css posix_runtime generate_css missing_type_config = Inr rc"
    and ps: "\<not> passed rs"
    using missing_type_validation by blast
  have g1: "build_package posix_runtime out_dir missing_type_config False []
      = (Inl ValidationError, [])"
    using validation_gate [of posix_runtime missing_type_config ra rs rc out_dir False "[]"] v ps
    by simp
  have g2: "snd (build_package posix_runtime out_dir missing_type_config False []) = []"
    using validation_gate [of posix_runtime missing_type_config ra rs rc out_dir False "[]"] v ps
    by simp
  obtain m w' where b: "build_package posix_runtime out_dir BuildConfig_default False [] = (Inr m, w')"
    using default_build by blast
  from written_and_hashed [OF b] have w': "w' \<noteq> []"
    by (elim exE conjE) simp
  with b have "snd (build_package posix_runtime out_dir BuildConfig_default False []) \<noteq> []"
    by simp
  with validation_gate [of posix_runtime BuildConfig_default _ _ _ out_dir False "[]"]
  obtain rc' where "validate_css posix_runtime generate_css BuildConfig_default = Inr rc'"
    "passed rc'"
    by blast
  then have "\<not> failed_check (validate_css posix_runtime generate_css BuildConfig_default)"
    by simp
  with g1 v ps b w' show ?thesis
    by simp
qed







end
